theory Spec2Isabelle
  imports Main "HOL-Library.Word" "HOL-Library.AList"
begin

unbundle bit_operations_syntax

section \<open>JavaScript values the SDK handles\<close>

text \<open>
  Strings are byte lists (UTF-8). A value that the TypeScript types declare as
  \<open>string\<close> but that the code itself tests against \<open>undefined\<close> or
  \<open>null\<close> is a \<open>jsstr\<close>: the two absent values, or a string.
\<close>

datatype jsstr = Undefined | Null | Str string

text \<open>JavaScript truthiness of such a value: \<open>!v\<close> is \<open>falsy v\<close>.\<close>

fun falsy :: "jsstr \<Rightarrow> bool" where
  "falsy Undefined = True"
| "falsy Null = True"
| "falsy (Str s) = (s = [])"

text \<open>\<open>String(v)\<close> and the template literal \<open>`${v}`\<close>.\<close>

fun js_String :: "jsstr \<Rightarrow> string" where
  "js_String Undefined = ''undefined''"
| "js_String Null = ''null''"
| "js_String (Str s) = s"

text \<open>
  \<open>a || b\<close> on such values: the first operand when it is truthy, else the second.
\<close>

definition js_or :: "jsstr \<Rightarrow> jsstr \<Rightarrow> jsstr" where
  "js_or a b = (if falsy a then b else a)"

section \<open>SHA-256 and its hexadecimal rendering\<close>

text \<open>
  Node's \<open>createHash("sha256").update(s).digest("hex")\<close> is the SHA-256 of FIPS 180-4
  over the UTF-8 bytes of \<open>s\<close>, written as 64 lowercase hexadecimal digits.
\<close>

type_synonym u32 = "32 word"

definition rotr :: "nat \<Rightarrow> u32 \<Rightarrow> u32" where
  "rotr n x = drop_bit n x OR push_bit (32 - n) x"

definition Ch :: "u32 \<Rightarrow> u32 \<Rightarrow> u32 \<Rightarrow> u32" where
  "Ch x y z = (x AND y) XOR (NOT x AND z)"

definition Maj :: "u32 \<Rightarrow> u32 \<Rightarrow> u32 \<Rightarrow> u32" where
  "Maj x y z = (x AND y) XOR (x AND z) XOR (y AND z)"

definition Sigma0 :: "u32 \<Rightarrow> u32" where
  "Sigma0 x = rotr 2 x XOR rotr 13 x XOR rotr 22 x"

definition Sigma1 :: "u32 \<Rightarrow> u32" where
  "Sigma1 x = rotr 6 x XOR rotr 11 x XOR rotr 25 x"

definition sigma0 :: "u32 \<Rightarrow> u32" where
  "sigma0 x = rotr 7 x XOR rotr 18 x XOR drop_bit 3 x"

definition sigma1 :: "u32 \<Rightarrow> u32" where
  "sigma1 x = rotr 17 x XOR rotr 19 x XOR drop_bit 10 x"

text \<open>The 64 round constants, in round order.\<close>

definition round_constants :: "u32 list" where
  "round_constants =
    [0x428A2F98, 0x71374491, 0xB5C0FBCF, 0xE9B5DBA5,
     0x3956C25B, 0x59F111F1, 0x923F82A4, 0xAB1C5ED5,
     0xD807AA98, 0x12835B01, 0x243185BE, 0x550C7DC3,
     0x72BE5D74, 0x80DEB1FE, 0x9BDC06A7, 0xC19BF174,
     0xE49B69C1, 0xEFBE4786, 0x0FC19DC6, 0x240CA1CC,
     0x2DE92C6F, 0x4A7484AA, 0x5CB0A9DC, 0x76F988DA,
     0x983E5152, 0xA831C66D, 0xB00327C8, 0xBF597FC7,
     0xC6E00BF3, 0xD5A79147, 0x06CA6351, 0x14292967,
     0x27B70A85, 0x2E1B2138, 0x4D2C6DFC, 0x53380D13,
     0x650A7354, 0x766A0ABB, 0x81C2C92E, 0x92722C85,
     0xA2BFE8A1, 0xA81A664B, 0xC24B8B70, 0xC76C51A3,
     0xD192E819, 0xD6990624, 0xF40E3585, 0x106AA070,
     0x19A4C116, 0x1E376C08, 0x2748774C, 0x34B0BCB5,
     0x391C0CB3, 0x4ED8AA4A, 0x5B9CCA4F, 0x682E6FF3,
     0x748F82EE, 0x78A5636F, 0x84C87814, 0x8CC70208,
     0x90BEFFFA, 0xA4506CEB, 0xBEF9A3F7, 0xC67178F2]"

type_synonym sha_state = "u32 \<times> u32 \<times> u32 \<times> u32 \<times> u32 \<times> u32 \<times> u32 \<times> u32"

definition initial_hash :: sha_state where
  "initial_hash =
    (0x6A09E667, 0xBB67AE85, 0x3C6EF372, 0xA54FF53A,
     0x510E527F, 0x9B05688C, 0x1F83D9AB, 0x5BE0CD19)"

text \<open>The bytes of \<open>v\<close>, most significant first, in \<open>k\<close> bytes.\<close>

fun big_endian :: "nat \<Rightarrow> nat \<Rightarrow> nat list" where
  "big_endian 0 v = []"
| "big_endian (Suc k) v = big_endian k (v div 256) @ [v mod 256]"

text \<open>
  Padding: the byte 0x80, zero bytes until the length is 56 modulo 64, then the
  message length in bits as a 64-bit big-endian number.
\<close>

definition sha_pad :: "nat list \<Rightarrow> nat list" where
  "sha_pad bs =
     bs @ [128] @ replicate ((119 - length bs mod 64) mod 64) 0
        @ big_endian 8 (8 * length bs)"

fun be_words :: "nat list \<Rightarrow> u32 list" where
  "be_words (a # b # c # d # bs) =
     (push_bit 24 (of_nat a) OR push_bit 16 (of_nat b) OR push_bit 8 (of_nat c) OR of_nat d)
       # be_words bs"
| "be_words _ = []"

text \<open>
  The message schedule, newest word first: from \<open>W\<^sub>t\<^sub>-\<^sub>1, W\<^sub>t\<^sub>-\<^sub>2, ...\<close> the next
  word is \<open>\<sigma>\<^sub>1(W\<^sub>t\<^sub>-\<^sub>2) + W\<^sub>t\<^sub>-\<^sub>7 + \<sigma>\<^sub>0(W\<^sub>t\<^sub>-\<^sub>1\<^sub>5) + W\<^sub>t\<^sub>-\<^sub>1\<^sub>6\<close>.
\<close>

fun extend_schedule :: "nat \<Rightarrow> u32 list \<Rightarrow> u32 list" where
  "extend_schedule 0 ws = ws"
| "extend_schedule (Suc n) ws =
     extend_schedule n ((sigma1 (ws ! 1) + ws ! 6 + sigma0 (ws ! 14) + ws ! 15) # ws)"

fun sha_round :: "sha_state \<Rightarrow> u32 \<times> u32 \<Rightarrow> sha_state" where
  "sha_round (a, b, c, d, e, f, g, h) (k, w) =
     (let t1 = h + Sigma1 e + Ch e f g + k + w;
          t2 = Sigma0 a + Maj a b c
      in (t1 + t2, a, b, c, d + t1, e, f, g))"

fun add_state :: "sha_state \<Rightarrow> sha_state \<Rightarrow> sha_state" where
  "add_state (a, b, c, d, e, f, g, h) (a', b', c', d', e', f', g', h') =
     (a + a', b + b', c + c', d + d', e + e', f + f', g + g', h + h')"

definition compress :: "sha_state \<Rightarrow> u32 list \<Rightarrow> sha_state" where
  "compress st block =
     add_state st
       (foldl sha_round st (zip round_constants (rev (extend_schedule 48 (rev block)))))"

fun blocks_of :: "nat \<Rightarrow> u32 list \<Rightarrow> u32 list list" where
  "blocks_of 0 ws = []"
| "blocks_of (Suc n) ws = take 16 ws # blocks_of n (drop 16 ws)"

definition hex_digit :: "nat \<Rightarrow> char" where
  "hex_digit n = ''0123456789abcdef'' ! n"

definition hex_word :: "u32 \<Rightarrow> string" where
  "hex_word w =
     map (\<lambda>i. hex_digit (unat (drop_bit (4 * i) w AND 15))) [7, 6, 5, 4, 3, 2, 1, 0]"

fun hex_state :: "sha_state \<Rightarrow> string" where
  "hex_state (a, b, c, d, e, f, g, h) = concat (map hex_word [a, b, c, d, e, f, g, h])"

definition sha256_hex :: "string \<Rightarrow> string" where
  "sha256_hex s =
     (let ws = be_words (sha_pad (map of_char s))
      in hex_state (foldl compress initial_hash (blocks_of (length ws div 16) ws)))"

section \<open>Signature validation\<close>

text \<open>
  \<open>EpaycoSignatureConstructionData\<close>. The fields are typed \<open>string\<close>; the
  function guards each of them at run time, so each is a \<open>jsstr\<close>.
\<close>

record EpaycoSignatureConstructionData =
  p_cust_id_cliente :: jsstr
  p_key :: jsstr
  x_ref_payco :: jsstr
  x_transaction_id :: jsstr
  x_amount :: jsstr
  x_currency_code :: jsstr

text \<open>The condition of the guard of \<open>validateEpaycoSignature\<close>, as written.\<close>

definition missing_parameters :: "jsstr \<Rightarrow> EpaycoSignatureConstructionData \<Rightarrow> bool" where
  "missing_parameters receivedSignature constructionData =
     (falsy receivedSignature \<or>
      falsy (p_cust_id_cliente constructionData) \<or>
      falsy (p_key constructionData) \<or>
      falsy (x_ref_payco constructionData) \<or>
      falsy (x_transaction_id constructionData) \<or>
      x_amount constructionData = Undefined \<or>
      x_amount constructionData = Null \<or>
      falsy (x_currency_code constructionData))"

definition signatureString :: "EpaycoSignatureConstructionData \<Rightarrow> string" where
  "signatureString constructionData =
     js_String (p_cust_id_cliente constructionData) @ ''^'' @
     js_String (p_key constructionData) @ ''^'' @
     js_String (x_ref_payco constructionData) @ ''^'' @
     js_String (x_transaction_id constructionData) @ ''^'' @
     js_String (x_amount constructionData) @ ''^'' @
     js_String (x_currency_code constructionData)"

text \<open>
  \<open>validateEpaycoSignature\<close>. The guard only writes to the console before it
  returns; the console is not modelled. The last line compares with \<open>===\<close>: a string
  equals only the same string.
\<close>

definition validateEpaycoSignature :: "jsstr \<Rightarrow> EpaycoSignatureConstructionData \<Rightarrow> bool" where
  "validateEpaycoSignature receivedSignature constructionData =
     (if missing_parameters receivedSignature constructionData then False
      else Str (sha256_hex (signatureString constructionData)) = receivedSignature)"

section \<open>The request payload\<close>

text \<open>
  JSON values as the SDK sends them. \<open>'n\<close> is the type of JavaScript numbers; the
  only operation the code applies to a number is \<open>String\<close>, which the functions
  below take as the parameter \<open>numStr\<close>. An object is the list of its
  properties in insertion order.
\<close>

datatype 'n json =
    JString string
  | JNumber 'n
  | JBoolean bool
  | JNull
  | JArray "'n json list"
  | JObject "(string \<times> 'n json) list"

text \<open>Reading a property: \<open>None\<close> is JavaScript's \<open>undefined\<close>.\<close>

fun property :: "'n json \<Rightarrow> string \<Rightarrow> 'n json option" where
  "property (JObject kvs) k = map_of kvs k"
| "property _ k = None"

text \<open>Every leaf is a string: no number, boolean or null at any depth.\<close>

fun string_leaves :: "'n json \<Rightarrow> bool" where
  "string_leaves (JString s) = True"
| "string_leaves (JArray xs) = list_all string_leaves xs"
| "string_leaves (JObject kvs) = list_all string_leaves (map snd kvs)"
| "string_leaves _ = False"

text \<open>
  \<open>toUpperCase\<close> and \<open>toLowerCase\<close> on the ASCII letters; other bytes are
  kept (JavaScript also maps letters outside ASCII).
\<close>

definition upper_char :: "char \<Rightarrow> char" where
  "upper_char c =
     (let n = of_char c :: nat in if 97 \<le> n \<and> n \<le> 122 then char_of (n - 32) else c)"

definition lower_char :: "char \<Rightarrow> char" where
  "lower_char c =
     (let n = of_char c :: nat in if 65 \<le> n \<and> n \<le> 90 then char_of (n + 32) else c)"

definition toUpperCase :: "string \<Rightarrow> string" where
  "toUpperCase s = map upper_char s"

definition toLowerCase :: "string \<Rightarrow> string" where
  "toLowerCase s = map lower_char s"

text \<open>\<open>String(b)\<close> for a boolean.\<close>

definition String_bool :: "bool \<Rightarrow> string" where
  "String_bool b = (if b then ''true'' else ''false'')"

text \<open>The decimal digits of a loop counter, as the template literal writes it.\<close>

definition digit_char :: "nat \<Rightarrow> char" where
  "digit_char n = ''0123456789'' ! n"

function decimal :: "nat \<Rightarrow> string" where
  "decimal n =
     (if n < 10 then [digit_char n]
      else decimal (n div 10) @ [digit_char (n mod 10)])"
  by pat_completeness auto
termination
  by (relation "measure id") auto

declare decimal.simps [simp del]

record EpaycoBillingDetails =
  email :: string
  name :: string
  address :: string
  typeDoc :: string
  numberDoc :: string
  callingCode :: "string option"
  mobilePhone :: string

record 'n EpaycoSplitReceiver =
  merchantId :: 'n
  amount :: 'n
  taxBase :: "'n option"
  tax :: "'n option"
  fee :: "'n option"

record 'n EpaycoSplitPayment =
  type :: string
  receivers :: "'n EpaycoSplitReceiver list"

text \<open>
  The ten slots are typed \<open>string | undefined\<close>; the loop also tests them against
  \<open>null\<close>.
\<close>

record EpaycoExtras =
  extra1 :: jsstr
  extra2 :: jsstr
  extra3 :: jsstr
  extra4 :: jsstr
  extra5 :: jsstr
  extra6 :: jsstr
  extra7 :: jsstr
  extra8 :: jsstr
  extra9 :: jsstr
  extra10 :: jsstr

text \<open>
  \<open>EpaycoPaymentDetails\<close>. An optional property is an \<open>option\<close>: \<open>None\<close> is
  \<open>undefined\<close>. The fields \<open>name\<close>, \<open>amount\<close>, \<open>taxBase\<close> and \<open>tax\<close> of
  the records above are written with their record's name from here on.
\<close>

record 'n EpaycoPaymentDetails =
  name :: string
  description :: string
  currency :: string
  amount :: 'n
  country :: string
  lang :: string
  ip :: string
  confirmationUrl :: string
  responseUrl :: string
  billing :: EpaycoBillingDetails
  invoice :: "string option"
  taxBase :: "'n option"
  tax :: "'n option"
  taxIco :: "'n option"
  methodsDisable :: "string list option"
  splitPayment :: "'n EpaycoSplitPayment option"
  extras :: "EpaycoExtras option"

text \<open>\<open>...(v !== undefined && { key: String(v) })\<close> inside an object literal.\<close>

definition spread_defined :: "string \<Rightarrow> ('a \<Rightarrow> string) \<Rightarrow> 'a option \<Rightarrow> (string \<times> 'n json) list" where
  "spread_defined key str v =
     (case v of None \<Rightarrow> [] | Some x \<Rightarrow> [(key, JString (str x))])"

text \<open>The object built for one receiver of a split payment.\<close>

definition receiver_payload :: "('n \<Rightarrow> string) \<Rightarrow> 'n EpaycoSplitReceiver \<Rightarrow> 'n json" where
  "receiver_payload numStr receiver =
     JObject
       ([(''merchantId'', JString (numStr (merchantId receiver))),
         (''amount'', JString (numStr (EpaycoSplitReceiver.amount receiver)))]
        @ spread_defined ''taxBase'' numStr (EpaycoSplitReceiver.taxBase receiver)
        @ spread_defined ''tax'' numStr (EpaycoSplitReceiver.tax receiver)
        @ spread_defined ''fee'' numStr (fee receiver))"

text \<open>
  The object literal that initialises \<open>stringifiedPayload\<close>. Its keys are pairwise
  different, so the literal is the list of its properties in the order written.
\<close>

definition stringifiedPayload ::
  "('n \<Rightarrow> string) \<Rightarrow> 'n EpaycoPaymentDetails \<Rightarrow> bool \<Rightarrow> (string \<times> 'n json) list" where
  "stringifiedPayload numStr details isTestMode =
     [(''test'', JString (toLowerCase (String_bool isTestMode))),
      (''ip'', JString (ip details)),
      (''name'', JString (name details)),
      (''description'', JString (description details)),
      (''currency'', JString (toUpperCase (currency details))),
      (''amount'', JString (numStr (amount details))),
      (''country'', JString (toUpperCase (country details))),
      (''lang'', JString (toUpperCase (lang details))),
      (''response'', JString (responseUrl details)),
      (''confirmation'', JString (confirmationUrl details)),
      (''checkout_version'', JString ''2''),
      (''billing'', JObject
         ([(''email'', JString (email (billing details))),
           (''name'', JString (EpaycoBillingDetails.name (billing details))),
           (''address'', JString (address (billing details))),
           (''typeDoc'', JString (typeDoc (billing details))),
           (''numberDoc'', JString (numberDoc (billing details))),
           (''mobilePhone'', JString (mobilePhone (billing details)))]
          @ spread_defined ''callingCode'' id (callingCode (billing details)))),
      (''nameBilling'', JString (EpaycoBillingDetails.name (billing details))),
      (''emailBilling'', JString (email (billing details))),
      (''addressBilling'', JString (address (billing details))),
      (''typeDocBilling'', JString (typeDoc (billing details))),
      (''numberDocBilling'', JString (numberDoc (billing details))),
      (''mobilephoneBilling'', JString (mobilePhone (billing details)))]
     @ spread_defined ''invoice'' id (invoice details)
     @ spread_defined ''taxBase'' numStr (taxBase details)
     @ spread_defined ''tax'' numStr (tax details)
     @ spread_defined ''taxIco'' numStr (taxIco details)
     @ (case methodsDisable details of
          None \<Rightarrow> []
        | Some ms \<Rightarrow>
            if length ms > 0 then [(''methodsDisable'', JArray (map JString ms))] else [])
     @ (case splitPayment details of
          None \<Rightarrow> []
        | Some sp \<Rightarrow>
            [(''splitPayment'', JObject
               [(''type'', JString (type sp)),
                (''receivers'', JArray (map (receiver_payload numStr) (receivers sp)))])])"

text \<open>\<open>details.extras[key]\<close>: a property the object does not have is \<open>undefined\<close>.\<close>

definition extras_get :: "EpaycoExtras \<Rightarrow> string \<Rightarrow> jsstr" where
  "extras_get ex key =
     (if key = ''extra1'' then extra1 ex
      else if key = ''extra2'' then extra2 ex
      else if key = ''extra3'' then extra3 ex
      else if key = ''extra4'' then extra4 ex
      else if key = ''extra5'' then extra5 ex
      else if key = ''extra6'' then extra6 ex
      else if key = ''extra7'' then extra7 ex
      else if key = ''extra8'' then extra8 ex
      else if key = ''extra9'' then extra9 ex
      else if key = ''extra10'' then extra10 ex
      else Undefined)"

text \<open>
  The loop \<open>for (let i = 1; i <= 10; i++)\<close>, from counter \<open>i\<close> on. The assignment
  \<open>stringifiedPayload[key] = v\<close> replaces the value of a key the object has and
  appends a new key otherwise, which is \<open>AList.update\<close>.
\<close>

function extras_loop ::
  "EpaycoExtras \<Rightarrow> (string \<times> 'n json) list \<Rightarrow> nat \<Rightarrow> (string \<times> 'n json) list" where
  "extras_loop ex payload i =
     (if i \<le> 10 then
        (let key = ''extra'' @ decimal i
         in extras_loop ex
              (if extras_get ex key \<noteq> Undefined \<and> extras_get ex key \<noteq> Null
               then AList.update key (JString (js_String (extras_get ex key))) payload
               else payload)
              (i + 1))
      else payload)"
  by pat_completeness auto
termination
  by (relation "measure (\<lambda>(ex, payload, i). 11 - i)") auto

declare extras_loop.simps [simp del]

definition mapPaymentDetailsToEpaycoRequest ::
  "('n \<Rightarrow> string) \<Rightarrow> 'n EpaycoPaymentDetails \<Rightarrow> bool \<Rightarrow> 'n json" where
  "mapPaymentDetailsToEpaycoRequest numStr details isTestMode =
     JObject
       (case extras details of
          None \<Rightarrow> stringifiedPayload numStr details isTestMode
        | Some ex \<Rightarrow> extras_loop ex (stringifiedPayload numStr details isTestMode) 1)"

section \<open>The network and the errors\<close>

text \<open>\<open>new Error(message)\<close>: every failure of the SDK is one.\<close>

datatype js_error = Error string

text \<open>
  What a \<open>catch\<close> block of the SDK can receive: an Axios error with
  \<open>error.response?.data\<close> and \<open>error.message\<close>, another \<open>Error\<close> with its
  message, or a thrown value that is not an \<open>Error\<close> (and has no \<open>message\<close>).
\<close>

datatype 'e thrown = AxiosError 'e string | PlainError string | NonError

text \<open>
  The outcome of \<open>await axios.post(...)\<close>: the promise resolves with
  \<open>response.data\<close>, or it rejects.
\<close>

datatype ('r, 'e) outcome = Resolved 'r | Rejected "'e thrown"

datatype 'n request = Post string "(string \<times> string) list" "'n json"

record EpaycoLoginResponse =
  token :: jsstr
  error :: jsstr
  success :: "bool option"
  status :: jsstr
  titleResponse :: jsstr
  textResponse :: jsstr
  message :: jsstr

record 'n EpaycoFieldError =
  codError :: 'n
  errorMessage :: string

text \<open>
  The \<open>data\<close> property of a session response: \<open>EpaycoSessionSuccessData\<close> and
  \<open>EpaycoSessionErrorData\<close> in one record, each property optional, since the code
  reads \<open>sessionId\<close> and \<open>errors\<close> from the same object.
\<close>

record 'n EpaycoSessionData =
  sessionId :: jsstr
  totalErrors :: "'n option"
  errors :: "'n EpaycoFieldError list option"

text \<open>
  \<open>EpaycoSessionApiResponse\<close>. The fields \<open>success\<close>, \<open>titleResponse\<close> and
  \<open>textResponse\<close> of the login response are written with their record's name from
  here on.
\<close>

record 'n EpaycoSessionApiResponse =
  success :: bool
  titleResponse :: jsstr
  textResponse :: jsstr
  lastAction :: jsstr
  data :: "'n EpaycoSessionData option"

text \<open>
  The remote gateway: what each of the two calls answers to a request. The body of a
  login answer may be absent; the handlers read \<open>error.response?.data\<close>, which may
  be absent for both calls.
\<close>

record 'n network =
  login_reply ::
    "'n request \<Rightarrow> (EpaycoLoginResponse option, EpaycoLoginResponse option) outcome"
  session_reply ::
    "'n request \<Rightarrow> ('n EpaycoSessionApiResponse, 'n EpaycoSessionApiResponse option) outcome"

definition DEFAULT_EPAYCO_API_BASE_URL :: string where
  "DEFAULT_EPAYCO_API_BASE_URL = ''https://apify.epayco.co''"

definition LOGIN_PATH :: string where
  "LOGIN_PATH = ''/login''"

definition CREATE_SESSION_PATH :: string where
  "CREATE_SESSION_PATH = ''/payment/session/create''"

text \<open>\<open>s.startsWith(p)\<close>.\<close>

definition startsWith :: "string \<Rightarrow> string \<Rightarrow> bool" where
  "startsWith s p = (take (length p) s = p)"

text \<open>\<open>xs.join(sep)\<close>.\<close>

fun join :: "string \<Rightarrow> string list \<Rightarrow> string" where
  "join sep [] = []"
| "join sep [x] = x"
| "join sep (x # y # ys) = x @ sep @ join sep (y # ys)"

text \<open>\<open>Buffer.from(s).toString("base64")\<close>: three bytes become four characters.\<close>

definition base64_char :: "nat \<Rightarrow> char" where
  "base64_char n =
     ''ABCDEFGHIJKLMNOPQRSTUVWXYZabcdefghijklmnopqrstuvwxyz0123456789+/'' ! n"

fun base64_bytes :: "nat list \<Rightarrow> string" where
  "base64_bytes (a # b # c # bs) =
     [base64_char (a div 4),
      base64_char (a mod 4 * 16 + b div 16),
      base64_char (b mod 16 * 4 + c div 64),
      base64_char (c mod 64)] @ base64_bytes bs"
| "base64_bytes [a, b] =
     [base64_char (a div 4),
      base64_char (a mod 4 * 16 + b div 16),
      base64_char (b mod 16 * 4),
      CHR ''='']"
| "base64_bytes [a] =
     [base64_char (a div 4), base64_char (a mod 4 * 16), CHR ''='', CHR ''='']"
| "base64_bytes [] = []"

definition base64 :: "string \<Rightarrow> string" where
  "base64 s = base64_bytes (map of_char s)"

text \<open>
  The failure taxonomy of the specification. The SDK throws plain \<open>Error\<close>s and
  tells its own apart by the prefix of the message, as the handler of
  \<open>createEpaycoSession\<close> does.
\<close>

datatype error_kind = ConfigurationError | AuthenticationFailed | SessionCreationFailed

fun error_kind_of :: "js_error \<Rightarrow> error_kind option" where
  "error_kind_of (Error m) =
     (if startsWith m ''ePayco SDK:'' then Some ConfigurationError
      else if startsWith m ''ePayco Authentication Failed:'' then Some AuthenticationFailed
      else if startsWith m ''ePayco Session Creation Failed:'' then Some SessionCreationFailed
      else None)"

section \<open>Authentication\<close>

text \<open>Optional chaining \<open>d?.field\<close> on an optional object.\<close>

definition chain :: "'a option \<Rightarrow> ('a \<Rightarrow> jsstr) \<Rightarrow> jsstr" where
  "chain d field = (case d of None \<Rightarrow> Undefined | Some x \<Rightarrow> field x)"

text \<open>The object \<open>{}\<close> read as a login response.\<close>

definition empty_login_response :: EpaycoLoginResponse where
  "empty_login_response =
     \<lparr>token = Undefined, error = Undefined, EpaycoLoginResponse.success = None,
      status = Undefined, EpaycoLoginResponse.titleResponse = Undefined,
      EpaycoLoginResponse.textResponse = Undefined, message = Undefined\<rparr>"

text \<open>\<open>errorMessage\<close> of the \<open>else\<close> branch, from \<open>errorFields\<close>.\<close>

definition login_errorMessage :: "EpaycoLoginResponse \<Rightarrow> string" where
  "login_errorMessage errorFields =
     js_String
       (js_or (js_or (js_or (js_or (error errorFields)
                                   (EpaycoLoginResponse.textResponse errorFields))
                            (EpaycoLoginResponse.titleResponse errorFields))
                     (message errorFields))
              (Str ''Invalid token or unknown error response during authentication.''))"

text \<open>The \<open>catch\<close> block of \<open>getEpaycoAuthToken\<close>: the error it throws.\<close>

fun login_catch :: "EpaycoLoginResponse option thrown \<Rightarrow> js_error" where
  "login_catch (AxiosError errorData axiosMessage) =
     Error (''ePayco Authentication Failed: '' @
       js_String
         (js_or (js_or (js_or (js_or (chain errorData message) (chain errorData error))
                              (chain errorData EpaycoLoginResponse.textResponse))
                       (Str axiosMessage))
                (Str ''Network error or ePayco server issue during authentication.'')))"
| "login_catch (PlainError m) = Error (''ePayco Authentication Failed: '' @ m)"
| "login_catch NonError = Error ''An unknown error occurred during ePayco authentication.''"

text \<open>The request \<open>getEpaycoAuthToken\<close> posts.\<close>

definition login_request :: "string \<Rightarrow> string \<Rightarrow> string \<Rightarrow> 'n request" where
  "login_request publicKey privateKey apiBaseUrl =
     (let authUrl = apiBaseUrl @ LOGIN_PATH;
          credentials = base64 (publicKey @ '':'' @ privateKey)
      in Post authUrl
           [(''Content-Type'', ''application/json''),
            (''Authorization'', ''Basic '' @ credentials)]
           (JObject []))"

text \<open>
  \<open>getEpaycoAuthToken\<close>: the token or the error, and the requests it sent. The
  \<open>throw\<close> of the \<open>else\<close> branch stands inside the \<open>try\<close>, so the \<open>catch\<close>
  block receives it as an \<open>Error\<close> that is not an Axios error.
\<close>

definition getEpaycoAuthToken ::
  "'n network \<Rightarrow> string \<Rightarrow> string \<Rightarrow> string \<Rightarrow> (js_error + string) \<times> 'n request list" where
  "getEpaycoAuthToken net publicKey privateKey apiBaseUrl =
     (let request = login_request publicKey privateKey apiBaseUrl
      in (case login_reply net request of
            Rejected e \<Rightarrow> Inl (login_catch e)
          | Resolved body \<Rightarrow>
              (case body of
                 Some d \<Rightarrow>
                   if \<not> falsy (token d) then Inr (js_String (token d))
                   else Inl (login_catch (PlainError
                          (''ePayco Authentication Failed: '' @ login_errorMessage d)))
               | None \<Rightarrow>
                   Inl (login_catch (PlainError
                          (''ePayco Authentication Failed: '' @
                             login_errorMessage empty_login_response)))),
          [request]))"

section \<open>Authentication in the second copy of the server module\<close>

text \<open>
  The repository holds the server module twice. The definitions named as the source
  names them follow the copy that also exports \<open>validateEpaycoSignature\<close>; those
  with the suffix \<open>server_index\<close> follow \<open>src/server/index.ts\<close>, whose payload
  mapping is the same function and whose authentication and response handling differ.
\<close>

text \<open>The \<open>catch\<close> block of \<open>getEpaycoAuthToken\<close> in \<open>src/server/index.ts\<close>.\<close>

fun login_catch_server_index :: "EpaycoLoginResponse option thrown \<Rightarrow> js_error" where
  "login_catch_server_index (AxiosError errorData axiosMessage) =
     Error (''ePayco Authentication Failed: '' @
       js_String
         (js_or (chain errorData message)
                (Str ''Network error or ePayco server issue during authentication.'')))"
| "login_catch_server_index (PlainError m) = Error (''ePayco Authentication Failed: '' @ m)"
| "login_catch_server_index NonError = Error (''ePayco Authentication Failed: '' @ ''undefined'')"

definition getEpaycoAuthToken_server_index ::
  "'n network \<Rightarrow> string \<Rightarrow> string \<Rightarrow> string \<Rightarrow> (js_error + string) \<times> 'n request list" where
  "getEpaycoAuthToken_server_index net publicKey privateKey apiBaseUrl =
     (let request = login_request publicKey privateKey apiBaseUrl
      in (case login_reply net request of
            Rejected e \<Rightarrow> Inl (login_catch_server_index e)
          | Resolved body \<Rightarrow>
              if \<not> falsy (chain body token) then Inr (js_String (chain body token))
              else Inl (login_catch_server_index (PlainError
                     (''ePayco Authentication Failed: '' @
                      js_String
                        (js_or (js_or (js_or (js_or (chain body error)
                                                    (chain body EpaycoLoginResponse.textResponse))
                                             (chain body EpaycoLoginResponse.titleResponse))
                                      (chain body message))
                               (Str (''Failed to authenticate with ePayco: '' @
                                     ''Invalid token or error response.'')))))),
          [request]))"

section \<open>Session creation\<close>

text \<open>The request \<open>createEpaycoSession\<close> posts.\<close>

definition session_request :: "string \<Rightarrow> string \<Rightarrow> 'n json \<Rightarrow> 'n request" where
  "session_request apiBaseUrl authToken requestBody =
     (let sessionCreateFullUrl = apiBaseUrl @ CREATE_SESSION_PATH
      in Post sessionCreateFullUrl
           [(''Content-Type'', ''application/json''),
            (''Authorization'', ''Bearer '' @ authToken)]
           requestBody)"

record 'n CreateEpaycoSessionConfig =
  publicKey :: string
  privateKey :: string
  paymentDetails :: "'n EpaycoPaymentDetails option"
  isTestMode :: bool
  epaycoApiBaseUrl :: "string option"

text \<open>\<open>errorResponse.data?.errors\<close> when it is a non-empty list, else nothing.\<close>

definition field_errors :: "'n EpaycoSessionData option \<Rightarrow> 'n EpaycoFieldError list" where
  "field_errors d =
     (case d of
        None \<Rightarrow> []
      | Some x \<Rightarrow> (case errors x of None \<Rightarrow> [] | Some es \<Rightarrow> es))"

text \<open>\<open>errorMessage\<close> of the \<open>else\<close> branch of \<open>createEpaycoSession\<close>.\<close>

definition session_errorMessage :: "('n \<Rightarrow> string) \<Rightarrow> 'n EpaycoSessionApiResponse \<Rightarrow> string" where
  "session_errorMessage numStr errorResponse =
     (let errorMessage0 = ''ePayco session creation failed.'';
          errorMessage1 =
            (if \<not> falsy (textResponse errorResponse) \<or> \<not> falsy (titleResponse errorResponse)
             then js_String (js_or (js_or (textResponse errorResponse)
                                          (titleResponse errorResponse))
                                   (Str errorMessage0))
             else errorMessage0)
      in if length (field_errors (data errorResponse)) > 0
         then errorMessage1 @ '' Details: '' @
              join '', ''
                (map (\<lambda>err. errorMessage err @ '' (field code: '' @ numStr (codError err) @ '')'')
                   (field_errors (data errorResponse)))
         else errorMessage1)"

text \<open>The \<open>catch\<close> block of \<open>createEpaycoSession\<close>.\<close>

fun session_catch ::
  "('n \<Rightarrow> string) \<Rightarrow> 'n EpaycoSessionApiResponse option thrown \<Rightarrow> js_error" where
  "session_catch numStr (AxiosError errorData axiosMessage) =
     (let serverMessage0 = ''Network error or ePayco server issue during session creation.''
      in Error (''ePayco Session Creation Failed: '' @
           (case errorData of
              Some d \<Rightarrow>
                (let serverMessage1 =
                       js_String (js_or (js_or (textResponse d) (titleResponse d))
                                        (Str serverMessage0))
                 in if length (field_errors (data d)) > 0
                    then serverMessage1 @ '' Details: '' @
                         join '', ''
                           (map (\<lambda>err. errorMessage err @ '' (code: '' @ numStr (codError err) @ '')'')
                              (field_errors (data d)))
                    else serverMessage1)
            | None \<Rightarrow> js_String (js_or (Str axiosMessage) (Str serverMessage0)))))"
| "session_catch numStr (PlainError m) =
     (if startsWith m ''ePayco SDK:'' \<or>
         startsWith m ''ePayco Authentication Failed:'' \<or>
         startsWith m ''ePayco Session Creation Failed:''
      then Error m
      else Error (''ePayco Session Creation Failed: '' @ m))"
| "session_catch numStr NonError =
     Error ''An unknown error occurred during ePayco session creation.''"

text \<open>
  \<open>createEpaycoSession\<close>: the session id or the error, and the requests sent. The
  two configuration checks stand before the \<open>try\<close>; everything after them is
  inside it.
\<close>

definition createEpaycoSession ::
  "'n network \<Rightarrow> ('n \<Rightarrow> string) \<Rightarrow> 'n CreateEpaycoSessionConfig
     \<Rightarrow> (js_error + jsstr) \<times> 'n request list" where
  "createEpaycoSession net numStr config =
     (if publicKey config = [] \<or> privateKey config = [] then
        (Inl (Error (''ePayco SDK: Public Key and Private Key are required '' @
                     ''in CreateEpaycoSessionConfig.'')), [])
      else
        (case paymentDetails config of
           None \<Rightarrow>
             (Inl (Error (''ePayco SDK: Payment details (paymentDetails) are required '' @
                          ''in CreateEpaycoSessionConfig.'')), [])
         | Some details \<Rightarrow>
             (let apiBaseUrl =
                    (case epaycoApiBaseUrl config of
                       None \<Rightarrow> DEFAULT_EPAYCO_API_BASE_URL
                     | Some url \<Rightarrow> url)
              in case getEpaycoAuthToken net (publicKey config) (privateKey config) apiBaseUrl of
                   (Inl (Error m), sent) \<Rightarrow> (Inl (session_catch numStr (PlainError m)), sent)
                 | (Inr authToken, sent) \<Rightarrow>
                     (let requestBody =
                            mapPaymentDetailsToEpaycoRequest numStr details (isTestMode config);
                          request = session_request apiBaseUrl authToken requestBody
                      in (case session_reply net request of
                            Rejected e \<Rightarrow> Inl (session_catch numStr e)
                          | Resolved response \<Rightarrow>
                              if success response \<and> \<not> falsy (chain (data response) sessionId)
                              then Inr (chain (data response) sessionId)
                              else Inl (session_catch numStr (PlainError
                                     (''ePayco Session Creation Failed: '' @
                                        session_errorMessage numStr response))),
                          sent @ [request])))))"

section \<open>Session creation in the second copy of the server module\<close>

text \<open>
  The \<open>catch\<close> block of \<open>createEpaycoSession\<close> in \<open>src/server/index.ts\<close>: it
  puts its prefix before every message, also before those of the SDK's own errors.
\<close>

fun session_catch_server_index ::
  "('n \<Rightarrow> string) \<Rightarrow> 'n EpaycoSessionApiResponse option thrown \<Rightarrow> js_error" where
  "session_catch_server_index numStr (AxiosError errorData axiosMessage) =
     (let serverMessage =
            js_String
              (js_or (js_or (chain errorData textResponse) (chain errorData titleResponse))
                     (Str ''Network error or ePayco server issue during session creation.''));
          es = (case errorData of None \<Rightarrow> [] | Some d \<Rightarrow> field_errors (data d))
      in Error (''ePayco Session Creation Failed: '' @
           (if length es > 0
            then serverMessage @ '' Details: '' @
                 join '', ''
                   (map (\<lambda>err. errorMessage err @ '' (code: '' @ numStr (codError err) @ '')'') es)
            else serverMessage)))"
| "session_catch_server_index numStr (PlainError m) =
     Error (''ePayco Session Creation Failed: '' @ m)"
| "session_catch_server_index numStr NonError =
     Error (''ePayco Session Creation Failed: '' @ ''undefined'')"

text \<open>
  \<open>createEpaycoSession\<close> in \<open>src/server/index.ts\<close>. On \<open>success === true\<close> it
  returns \<open>response.data.data.sessionId\<close> as it is; reading \<open>sessionId\<close> of an
  absent \<open>data\<close> throws a \<open>TypeError\<close> (the message is V8's), which the
  \<open>catch\<close> block receives.
\<close>

definition createEpaycoSession_server_index ::
  "'n network \<Rightarrow> ('n \<Rightarrow> string) \<Rightarrow> 'n CreateEpaycoSessionConfig
     \<Rightarrow> (js_error + jsstr) \<times> 'n request list" where
  "createEpaycoSession_server_index net numStr config =
     (if publicKey config = [] \<or> privateKey config = [] then
        (Inl (Error ''ePayco Public Key and Private Key are required.''), [])
      else
        (case paymentDetails config of
           None \<Rightarrow> (Inl (Error ''Payment details are required.''), [])
         | Some details \<Rightarrow>
             (let apiBaseUrl =
                    (case epaycoApiBaseUrl config of
                       None \<Rightarrow> DEFAULT_EPAYCO_API_BASE_URL
                     | Some url \<Rightarrow> url)
              in case getEpaycoAuthToken_server_index net
                        (publicKey config) (privateKey config) apiBaseUrl of
                   (Inl (Error m), sent) \<Rightarrow>
                     (Inl (session_catch_server_index numStr (PlainError m)), sent)
                 | (Inr authToken, sent) \<Rightarrow>
                     (let requestBody =
                            mapPaymentDetailsToEpaycoRequest numStr details (isTestMode config);
                          request = session_request apiBaseUrl authToken requestBody
                      in (case session_reply net request of
                            Rejected e \<Rightarrow> Inl (session_catch_server_index numStr e)
                          | Resolved response \<Rightarrow>
                              if success response then
                                (case data response of
                                   Some d \<Rightarrow> Inr (sessionId d)
                                 | None \<Rightarrow>
                                     Inl (session_catch_server_index numStr (PlainError
                                       (''Cannot read properties of undefined '' @
                                        ''(reading 'sessionId')''))))
                              else
                                Inl (session_catch_server_index numStr (PlainError
                                  (''ePayco Session Creation Failed: '' @
                                   (let errorMessage0 =
                                          js_String
                                            (js_or (js_or (textResponse response)
                                                          (titleResponse response))
                                                   (Str ''ePayco session creation failed.''))
                                    in if length (field_errors (data response)) > 0
                                       then errorMessage0 @ '' Details: '' @
                                            join '', ''
                                              (map (\<lambda>err. errorMessage err @ '' (code: '' @
                                                          numStr (codError err) @ '')'')
                                                 (field_errors (data response)))
                                       else errorMessage0)))),
                          sent @ [request])))))"

section \<open>Notions the claims use\<close>

text \<open>A string of lowercase hexadecimal digits.\<close>

definition lower_hex :: "string \<Rightarrow> bool" where
  "lower_hex s = (set s \<subseteq> set ''0123456789abcdef'')"

text \<open>An input that was not given: \<open>undefined\<close> or \<open>null\<close>.\<close>

definition absent :: "jsstr \<Rightarrow> bool" where
  "absent v = (v = Undefined \<or> v = Null)"

text \<open>
  What slot \<open>i\<close> of the extras contributes to the payload: the slot's string under
  the slot's own key when the slot holds a string, nothing otherwise.
\<close>

definition slot_entry :: "EpaycoExtras \<Rightarrow> nat \<Rightarrow> (string \<times> 'n json) list" where
  "slot_entry ex i =
     (case extras_get ex (''extra'' @ decimal i) of
        Str s \<Rightarrow> [(''extra'' @ decimal i, JString s)]
      | _ \<Rightarrow> [])"

text \<open>The contributions of the slots 1 to 10, in ascending order.\<close>

definition extras_entries :: "EpaycoExtras \<Rightarrow> (string \<times> 'n json) list" where
  "extras_entries ex = concat (map (slot_entry ex) [1..<11])"

text \<open>Reading \<open>out.parent.key\<close> when \<open>out.parent\<close> is there.\<close>

definition property_in :: "'n json \<Rightarrow> string \<Rightarrow> string \<Rightarrow> 'n json option" where
  "property_in out parent key =
     (case property out parent of None \<Rightarrow> None | Some obj \<Rightarrow> property obj key)"

text \<open>
  The first of the candidates that is a non-empty string, else the fallback: the
  precedence rule of the specification for error messages.
\<close>

fun first_nonempty :: "jsstr list \<Rightarrow> string \<Rightarrow> string" where
  "first_nonempty [] fallback = fallback"
| "first_nonempty (v # vs) fallback =
     (if falsy v then first_nonempty vs fallback else js_String v)"

section \<open>Inputs for the examples\<close>

text \<open>
  The payment of the example in the documentation of \<open>createEpaycoSession\<close>, the
  currency in lower case, with numbers as naturals and \<open>decimal\<close> for \<open>String\<close>.
\<close>

definition example_billing :: EpaycoBillingDetails where
  "example_billing =
     \<lparr>email = ''john.doe@example.com'', EpaycoBillingDetails.name = ''John Doe'',
      address = ''123 Main St'', typeDoc = ''CC'', numberDoc = ''123456789'',
      callingCode = None, mobilePhone = ''3001234567''\<rparr>"

definition no_extras :: EpaycoExtras where
  "no_extras =
     \<lparr>extra1 = Undefined, extra2 = Undefined, extra3 = Undefined, extra4 = Undefined,
      extra5 = Undefined, extra6 = Undefined, extra7 = Undefined, extra8 = Undefined,
      extra9 = Undefined, extra10 = Undefined\<rparr>"

definition example_details :: "nat EpaycoPaymentDetails" where
  "example_details =
     \<lparr>name = ''Test Product'', description = ''A product for testing'', currency = ''cop'',
      amount = 50000, country = ''CO'', lang = ''ES'', ip = ''190.0.0.1'',
      confirmationUrl = ''https://myapp.com/api/epayco-confirmation'',
      responseUrl = ''https://myapp.com/checkout/response'',
      billing = example_billing, invoice = None, taxBase = None, tax = None, taxIco = None,
      methodsDisable = None, splitPayment = None,
      extras = Some (no_extras\<lparr>extra1 := Str ''customValue1''\<rparr>)\<rparr>"

definition example_config :: "nat CreateEpaycoSessionConfig" where
  "example_config =
     \<lparr>publicKey = ''YOUR_EPAYCO_PUBLIC_KEY'', privateKey = ''YOUR_EPAYCO_PRIVATE_KEY'',
      paymentDetails = Some example_details, isTestMode = True, epaycoApiBaseUrl = None\<rparr>"

text \<open>
  A gateway that answers every login with \<open>{ token: "jwt" }\<close> and every session
  request with the given response.
\<close>

definition gateway :: "'n EpaycoSessionApiResponse \<Rightarrow> 'n network" where
  "gateway response =
     \<lparr>login_reply = (\<lambda>request. Resolved (Some (empty_login_response\<lparr>token := Str ''jwt''\<rparr>))),
      session_reply = (\<lambda>request. Resolved response)\<rparr>"

text \<open>
  A gateway that answers every login with the given body; its session call is never
  reached in the examples that use it.
\<close>

definition login_answers :: "EpaycoLoginResponse option \<Rightarrow> 'n network" where
  "login_answers body =
     \<lparr>login_reply = (\<lambda>request. Resolved body),
      session_reply = (\<lambda>request. Rejected NonError)\<rparr>"

text \<open>A gateway whose login call is rejected with the given error.\<close>

definition login_rejects :: "EpaycoLoginResponse option thrown \<Rightarrow> 'n network" where
  "login_rejects e =
     \<lparr>login_reply = (\<lambda>request. Rejected e),
      session_reply = (\<lambda>request. Rejected NonError)\<rparr>"

text \<open>The session response \<open>{ success: true, data: {} }\<close>.\<close>

definition success_without_id :: "'n EpaycoSessionApiResponse" where
  "success_without_id =
     \<lparr>success = True, titleResponse = Undefined, textResponse = Undefined,
      lastAction = Undefined,
      data = Some \<lparr>sessionId = Undefined, totalErrors = None, errors = None\<rparr>\<rparr>"

section \<open>Properties of the digest\<close>

lemma length_hex_word: "length (hex_word w) = 8"
  by (simp add: hex_word_def)

lemma length_hex_state: "length (hex_state st) = 64"
  by (induction st rule: hex_state.induct) (simp add: length_hex_word)

lemma length_sha256_hex: "length (sha256_hex s) = 64"
  by (simp add: sha256_hex_def Let_def length_hex_state)

lemma sha256_hex_not_empty: "sha256_hex s \<noteq> []"
  using length_sha256_hex [of s] by auto

lemma nibble_bound: "unat (w AND (15 :: u32)) < 16"
proof -
  have "w AND 15 \<le> 15" by (rule word_and_le1)
  then show ?thesis by (simp add: word_le_nat_alt)
qed

lemma hex_digit_lowercase: "n < 16 \<Longrightarrow> hex_digit n \<in> set ''0123456789abcdef''"
  unfolding hex_digit_def by (rule nth_mem) simp

lemma lower_hex_word: "lower_hex (hex_word w)"
  unfolding hex_word_def lower_hex_def using hex_digit_lowercase [OF nibble_bound] by auto

lemma lower_hex_state: "lower_hex (hex_state st)"
  by (induction st rule: hex_state.induct) (use lower_hex_word in \<open>auto simp add: lower_hex_def\<close>)

lemma lower_hex_sha256_hex: "lower_hex (sha256_hex s)"
  unfolding sha256_hex_def Let_def by (rule lower_hex_state)

section \<open>The signature verifier\<close>

lemma absent_falsy: "absent v \<Longrightarrow> falsy v"
  by (auto simp add: absent_def)

text \<open>
  C1. When the received signature and the five fields other than the amount are
  non-empty strings and the amount is a string (any string: the guard tests it
  against \<open>undefined\<close> and \<open>null\<close> only), \<open>validateEpaycoSignature\<close> returns
  true exactly when the received signature is, character for character, the SHA-256
  digest of the six fields joined by \<open>^\<close> in the order customer id, key,
  reference, transaction id, amount, currency, the amount as given; that digest is
  64 lowercase hexadecimal digits. (A field that is the empty string counts as
  missing for the guard, and the function returns false.)
\<close>

theorem validateEpaycoSignature_iff_digest:
  assumes "sig \<noteq> []" and "c \<noteq> []" and "k \<noteq> []" and "r \<noteq> []" and "t \<noteq> []"
    and "cur \<noteq> []"
  shows "(validateEpaycoSignature (Str sig)
            \<lparr>p_cust_id_cliente = Str c, p_key = Str k, x_ref_payco = Str r,
             x_transaction_id = Str t, x_amount = Str a, x_currency_code = Str cur\<rparr>
          \<longleftrightarrow> sig = sha256_hex (join ''^'' [c, k, r, t, a, cur])) \<and>
         lower_hex (sha256_hex (join ''^'' [c, k, r, t, a, cur])) \<and>
         length (sha256_hex (join ''^'' [c, k, r, t, a, cur])) = 64"
proof (intro conjI)
  show "validateEpaycoSignature (Str sig)
            \<lparr>p_cust_id_cliente = Str c, p_key = Str k, x_ref_payco = Str r,
             x_transaction_id = Str t, x_amount = Str a, x_currency_code = Str cur\<rparr>
          \<longleftrightarrow> sig = sha256_hex (join ''^'' [c, k, r, t, a, cur])"
    using assms
    by (auto simp add: validateEpaycoSignature_def missing_parameters_def signatureString_def)
  show "lower_hex (sha256_hex (join ''^'' [c, k, r, t, a, cur]))"
    by (rule lower_hex_sha256_hex)
  show "length (sha256_hex (join ''^'' [c, k, r, t, a, cur])) = 64"
    by (rule length_sha256_hex)
qed

text \<open>
  The fixture of the specification: the digest of \<open>123^abc^999^999^5000^COP\<close>,
  as \<open>sha256sum\<close> prints it.
\<close>

lemma sha256_hex_fixture:
  "sha256_hex ''123^abc^999^999^5000^COP'' =
     ''f1eca83be14c5ef7a2a9d17c6cda8ba7ec5d3f243cfd16fca9dddef5b3a271b2''"
  by code_simp

theorem validateEpaycoSignature_iff_digest_witness:
  "validateEpaycoSignature
     (Str ''f1eca83be14c5ef7a2a9d17c6cda8ba7ec5d3f243cfd16fca9dddef5b3a271b2'')
     \<lparr>p_cust_id_cliente = Str ''123'', p_key = Str ''abc'', x_ref_payco = Str ''999'',
      x_transaction_id = Str ''999'', x_amount = Str ''5000'', x_currency_code = Str ''COP''\<rparr> \<and>
   \<not> validateEpaycoSignature
     (Str ''f1eca83be14c5ef7a2a9d17c6cda8ba7ec5d3f243cfd16fca9dddef5b3a271b3'')
     \<lparr>p_cust_id_cliente = Str ''123'', p_key = Str ''abc'', x_ref_payco = Str ''999'',
      x_transaction_id = Str ''999'', x_amount = Str ''5000'', x_currency_code = Str ''COP''\<rparr>"
  using
    validateEpaycoSignature_iff_digest
      [where sig = "''f1eca83be14c5ef7a2a9d17c6cda8ba7ec5d3f243cfd16fca9dddef5b3a271b2''"
         and c = "''123''" and k = "''abc''" and r = "''999''" and t = "''999''"
         and a = "''5000''" and cur = "''COP''"]
    validateEpaycoSignature_iff_digest
      [where sig = "''f1eca83be14c5ef7a2a9d17c6cda8ba7ec5d3f243cfd16fca9dddef5b3a271b3''"
         and c = "''123''" and k = "''abc''" and r = "''999''" and t = "''999''"
         and a = "''5000''" and cur = "''COP''"]
  by (simp add: sha256_hex_fixture)

text \<open>
  C2. When any of the seven inputs is \<open>undefined\<close> or \<open>null\<close>,
  \<open>validateEpaycoSignature\<close> returns false; so it does when the received
  signature or one of the five fields other than the amount is the empty string. It
  has no other outcome than a boolean. The amount is tested against \<open>undefined\<close>
  and \<open>null\<close> only, not for truthiness: with the six other inputs non-empty, the
  guard for missing parameters fires exactly when the amount is \<open>undefined\<close> or
  \<open>null\<close>, and for every string as the amount, \<open>"0"\<close> and the empty string
  included, it does not fire and the result is the comparison with the digest.
\<close>

theorem missing_input_returns_false:
  "(absent receivedSignature \<or> absent (p_cust_id_cliente m) \<or> absent (p_key m) \<or>
    absent (x_ref_payco m) \<or> absent (x_transaction_id m) \<or> absent (x_amount m) \<or>
    absent (x_currency_code m)
      \<longrightarrow> validateEpaycoSignature receivedSignature m = False) \<and>
   (falsy receivedSignature \<or> falsy (p_cust_id_cliente m) \<or> falsy (p_key m) \<or>
    falsy (x_ref_payco m) \<or> falsy (x_transaction_id m) \<or> falsy (x_currency_code m)
      \<longrightarrow> validateEpaycoSignature receivedSignature m = False) \<and>
   (\<not> falsy receivedSignature \<and> \<not> falsy (p_cust_id_cliente m) \<and> \<not> falsy (p_key m) \<and>
    \<not> falsy (x_ref_payco m) \<and> \<not> falsy (x_transaction_id m) \<and> \<not> falsy (x_currency_code m)
      \<longrightarrow> missing_parameters receivedSignature m = absent (x_amount m)) \<and>
   (\<not> falsy receivedSignature \<and> \<not> falsy (p_cust_id_cliente m) \<and> \<not> falsy (p_key m) \<and>
    \<not> falsy (x_ref_payco m) \<and> \<not> falsy (x_transaction_id m) \<and> x_amount m = Str a \<and>
    \<not> falsy (x_currency_code m)
      \<longrightarrow> \<not> missing_parameters receivedSignature m \<and>
          validateEpaycoSignature receivedSignature m =
            (receivedSignature = Str (sha256_hex (signatureString m))))"
proof (intro conjI impI)
  assume "absent receivedSignature \<or> absent (p_cust_id_cliente m) \<or> absent (p_key m) \<or>
    absent (x_ref_payco m) \<or> absent (x_transaction_id m) \<or> absent (x_amount m) \<or>
    absent (x_currency_code m)"
  then have "missing_parameters receivedSignature m"
    unfolding missing_parameters_def using absent_falsy by (auto simp add: absent_def)
  then show "validateEpaycoSignature receivedSignature m = False"
    by (simp add: validateEpaycoSignature_def)
next
  assume "falsy receivedSignature \<or> falsy (p_cust_id_cliente m) \<or> falsy (p_key m) \<or>
    falsy (x_ref_payco m) \<or> falsy (x_transaction_id m) \<or> falsy (x_currency_code m)"
  then have "missing_parameters receivedSignature m"
    unfolding missing_parameters_def by blast
  then show "validateEpaycoSignature receivedSignature m = False"
    by (simp add: validateEpaycoSignature_def)
next
  assume "\<not> falsy receivedSignature \<and> \<not> falsy (p_cust_id_cliente m) \<and> \<not> falsy (p_key m) \<and>
    \<not> falsy (x_ref_payco m) \<and> \<not> falsy (x_transaction_id m) \<and> \<not> falsy (x_currency_code m)"
  then show "missing_parameters receivedSignature m = absent (x_amount m)"
    by (simp add: missing_parameters_def absent_def)
next
  assume "\<not> falsy receivedSignature \<and> \<not> falsy (p_cust_id_cliente m) \<and> \<not> falsy (p_key m) \<and>
    \<not> falsy (x_ref_payco m) \<and> \<not> falsy (x_transaction_id m) \<and> x_amount m = Str a \<and>
    \<not> falsy (x_currency_code m)"
  then show "\<not> missing_parameters receivedSignature m"
    by (simp add: missing_parameters_def)
  then show "validateEpaycoSignature receivedSignature m =
            (receivedSignature = Str (sha256_hex (signatureString m)))"
    by (auto simp add: validateEpaycoSignature_def)
qed

theorem missing_input_returns_false_witness:
  "validateEpaycoSignature (Str ''0123'')
     \<lparr>p_cust_id_cliente = Str ''123'', p_key = Null, x_ref_payco = Str ''999'',
      x_transaction_id = Str ''999'', x_amount = Str ''5000'', x_currency_code = Str ''COP''\<rparr>
     = False \<and>
   validateEpaycoSignature (Str ''0123'')
     \<lparr>p_cust_id_cliente = Str ''123'', p_key = Str ''abc'', x_ref_payco = Str ''999'',
      x_transaction_id = Str ''999'', x_amount = Undefined, x_currency_code = Str ''COP''\<rparr>
     = False \<and>
   validateEpaycoSignature (Str (sha256_hex ''123^^999^999^5000^COP''))
     \<lparr>p_cust_id_cliente = Str ''123'', p_key = Str [], x_ref_payco = Str ''999'',
      x_transaction_id = Str ''999'', x_amount = Str ''5000'', x_currency_code = Str ''COP''\<rparr>
     = False \<and>
   \<not> missing_parameters (Str (sha256_hex ''123^abc^999^999^0^COP''))
     \<lparr>p_cust_id_cliente = Str ''123'', p_key = Str ''abc'', x_ref_payco = Str ''999'',
      x_transaction_id = Str ''999'', x_amount = Str ''0'', x_currency_code = Str ''COP''\<rparr> \<and>
   validateEpaycoSignature (Str (sha256_hex ''123^abc^999^999^0^COP''))
     \<lparr>p_cust_id_cliente = Str ''123'', p_key = Str ''abc'', x_ref_payco = Str ''999'',
      x_transaction_id = Str ''999'', x_amount = Str ''0'', x_currency_code = Str ''COP''\<rparr> \<and>
   \<not> missing_parameters (Str (sha256_hex ''123^abc^999^999^^COP''))
     \<lparr>p_cust_id_cliente = Str ''123'', p_key = Str ''abc'', x_ref_payco = Str ''999'',
      x_transaction_id = Str ''999'', x_amount = Str [], x_currency_code = Str ''COP''\<rparr> \<and>
   validateEpaycoSignature (Str (sha256_hex ''123^abc^999^999^^COP''))
     \<lparr>p_cust_id_cliente = Str ''123'', p_key = Str ''abc'', x_ref_payco = Str ''999'',
      x_transaction_id = Str ''999'', x_amount = Str [], x_currency_code = Str ''COP''\<rparr>"
  using
    missing_input_returns_false [of "Str ''0123''"
      "\<lparr>p_cust_id_cliente = Str ''123'', p_key = Null, x_ref_payco = Str ''999'',
        x_transaction_id = Str ''999'', x_amount = Str ''5000'', x_currency_code = Str ''COP''\<rparr>"]
    missing_input_returns_false [of "Str ''0123''"
      "\<lparr>p_cust_id_cliente = Str ''123'', p_key = Str ''abc'', x_ref_payco = Str ''999'',
        x_transaction_id = Str ''999'', x_amount = Undefined, x_currency_code = Str ''COP''\<rparr>"]
    missing_input_returns_false [of "Str (sha256_hex ''123^^999^999^5000^COP'')"
      "\<lparr>p_cust_id_cliente = Str ''123'', p_key = Str [], x_ref_payco = Str ''999'',
        x_transaction_id = Str ''999'', x_amount = Str ''5000'', x_currency_code = Str ''COP''\<rparr>"]
    missing_input_returns_false [of "Str (sha256_hex ''123^abc^999^999^0^COP'')"
      "\<lparr>p_cust_id_cliente = Str ''123'', p_key = Str ''abc'', x_ref_payco = Str ''999'',
        x_transaction_id = Str ''999'', x_amount = Str ''0'', x_currency_code = Str ''COP''\<rparr>"
      "''0''"]
    missing_input_returns_false [of "Str (sha256_hex ''123^abc^999^999^^COP'')"
      "\<lparr>p_cust_id_cliente = Str ''123'', p_key = Str ''abc'', x_ref_payco = Str ''999'',
        x_transaction_id = Str ''999'', x_amount = Str [], x_currency_code = Str ''COP''\<rparr>"
      "[]"]
  by (simp add: absent_def sha256_hex_not_empty signatureString_def)

text \<open>
  C3. The signing string is not injective: moving a \<open>^\<close> across the boundary
  between the key and the reference gives two different materials with the same
  signing string, and \<open>validateEpaycoSignature\<close> accepts one and the same signature
  for both.
\<close>

theorem signatureString_not_injective:
  "\<lparr>p_cust_id_cliente = Str ''123'', p_key = Str ''k^r'', x_ref_payco = Str ''x'',
     x_transaction_id = Str ''999'', x_amount = Str ''5000'', x_currency_code = Str ''COP''\<rparr>
   \<noteq>
   \<lparr>p_cust_id_cliente = Str ''123'', p_key = Str ''k'', x_ref_payco = Str ''r^x'',
     x_transaction_id = Str ''999'', x_amount = Str ''5000'', x_currency_code = Str ''COP''\<rparr>
   \<and>
   signatureString
     \<lparr>p_cust_id_cliente = Str ''123'', p_key = Str ''k^r'', x_ref_payco = Str ''x'',
      x_transaction_id = Str ''999'', x_amount = Str ''5000'', x_currency_code = Str ''COP''\<rparr>
   = signatureString
     \<lparr>p_cust_id_cliente = Str ''123'', p_key = Str ''k'', x_ref_payco = Str ''r^x'',
      x_transaction_id = Str ''999'', x_amount = Str ''5000'', x_currency_code = Str ''COP''\<rparr>
   \<and>
   validateEpaycoSignature (Str (sha256_hex ''123^k^r^x^999^5000^COP''))
     \<lparr>p_cust_id_cliente = Str ''123'', p_key = Str ''k^r'', x_ref_payco = Str ''x'',
      x_transaction_id = Str ''999'', x_amount = Str ''5000'', x_currency_code = Str ''COP''\<rparr>
   \<and>
   validateEpaycoSignature (Str (sha256_hex ''123^k^r^x^999^5000^COP''))
     \<lparr>p_cust_id_cliente = Str ''123'', p_key = Str ''k'', x_ref_payco = Str ''r^x'',
      x_transaction_id = Str ''999'', x_amount = Str ''5000'', x_currency_code = Str ''COP''\<rparr>"
  by (simp add: validateEpaycoSignature_def missing_parameters_def signatureString_def
      sha256_hex_not_empty)

section \<open>The payload mapping\<close>

lemma update_new_key: "k \<notin> fst ` set p \<Longrightarrow> AList.update k v p = p @ [(k, v)]"
  by (induction p) auto

lemma decimal_digit: "n < 10 \<Longrightarrow> decimal n = [digit_char n]"
  by (simp add: decimal.simps)

lemma decimal_10: "decimal 10 = ''10''"
  by (simp add: decimal.simps [of 10] decimal_digit digit_char_def)

lemma digit_char_inj: "i < 10 \<Longrightarrow> j < 10 \<Longrightarrow> digit_char i = digit_char j \<Longrightarrow> i = j"
  unfolding digit_char_def by (rule nth_eq_iff_index_eq [THEN iffD1]) simp_all

lemma decimal_inj_upto_10:
  assumes "i \<le> 10" and "j \<le> 10" and "decimal i = decimal j"
  shows "i = j"
proof -
  consider "i < 10" "j < 10" | "i = 10" "j < 10" | "i < 10" "j = 10" | "i = 10" "j = 10"
    using assms(1,2) by linarith
  then show ?thesis
  proof cases
    case 1
    then show ?thesis using assms(3) digit_char_inj by (simp add: decimal_digit)
  next
    case 2 then show ?thesis using assms(3) by (simp add: decimal_10 decimal_digit)
  next
    case 3 then show ?thesis using assms(3) by (simp add: decimal_10 decimal_digit)
  next
    case 4 then show ?thesis by simp
  qed
qed

lemma slot_entry_keys: "fst ` set (slot_entry ex i :: (string \<times> 'n json) list) \<subseteq> {''extra'' @ decimal i}"
  by (auto simp add: slot_entry_def split: jsstr.splits)

lemma extras_loop_from:
  assumes "i \<le> 11"
    and "\<forall>j. i \<le> j \<and> j \<le> 10 \<longrightarrow> ''extra'' @ decimal j \<notin> fst ` set p"
  shows "extras_loop ex p i = p @ concat (map (slot_entry ex) [i..<11])"
  using assms
proof (induction ex p i rule: extras_loop.induct)
  case (1 ex payload i)
  show ?case
  proof (cases "i \<le> 10")
    case False
    then have "i = 11" using "1.prems" by simp
    then show ?thesis by (simp add: extras_loop.simps [of ex payload 11])
  next
    case True
    let ?key = "''extra'' @ decimal i"
    let ?next = "if extras_get ex ?key \<noteq> Undefined \<and> extras_get ex ?key \<noteq> Null
               then AList.update ?key (JString (js_String (extras_get ex ?key))) payload
               else payload"
    have fresh: "?key \<notin> fst ` set payload" using "1.prems"(2) True by blast
    have step: "?next = payload @ slot_entry ex i"
      using fresh by (auto simp add: slot_entry_def update_new_key split: jsstr.splits)
    have keys: "\<forall>j. i + 1 \<le> j \<and> j \<le> 10 \<longrightarrow> ''extra'' @ decimal j \<notin> fst ` set ?next"
    proof (intro allI impI)
      fix j assume j: "i + 1 \<le> j \<and> j \<le> 10"
      then have a: "''extra'' @ decimal j \<notin> fst ` set payload" using "1.prems"(2) by simp
      have "decimal j \<noteq> decimal i" using decimal_inj_upto_10 [of j i] j True by auto
      then have b: "''extra'' @ decimal j \<notin> fst ` set (slot_entry ex i :: (string \<times> 'a json) list)"
        using slot_entry_keys [of ex i] by auto
      show "''extra'' @ decimal j \<notin> fst ` set ?next"
        unfolding step using a b by auto
    qed
    have "extras_loop ex payload i = extras_loop ex ?next (i + 1)"
      by (subst extras_loop.simps) (simp add: True Let_def)
    also have "\<dots> = ?next @ concat (map (slot_entry ex) [i + 1..<11])"
      using "1.IH" [OF True refl] keys True by simp
    also have "\<dots> = payload @ concat (map (slot_entry ex) [i..<11])"
      unfolding step using True by (simp add: upt_rec [of i 11])
    finally show ?thesis .
  qed
qed


lemma stringifiedPayload_keys:
  "k \<in> fst ` set (stringifiedPayload numStr details t) \<Longrightarrow> take 5 k \<noteq> ''extra''"
  by (auto simp add: stringifiedPayload_def spread_defined_def split: option.splits if_splits)

lemma mapPaymentDetailsToEpaycoRequest_eq:
  "mapPaymentDetailsToEpaycoRequest numStr details t =
     JObject (stringifiedPayload numStr details t @
              (case extras details of None \<Rightarrow> [] | Some ex \<Rightarrow> extras_entries ex))"
proof (cases "extras details")
  case None
  then show ?thesis by (simp add: mapPaymentDetailsToEpaycoRequest_def)
next
  case (Some ex)
  have "\<forall>j. 1 \<le> j \<and> j \<le> 10 \<longrightarrow>
          ''extra'' @ decimal j \<notin> fst ` set (stringifiedPayload numStr details t)"
    using stringifiedPayload_keys [of _ numStr details t] by fastforce
  then have "extras_loop ex (stringifiedPayload numStr details t) 1 =
               stringifiedPayload numStr details t @ concat (map (slot_entry ex) [1..<11])"
    by (intro extras_loop_from) simp_all
  then show ?thesis
    using Some by (simp add: mapPaymentDetailsToEpaycoRequest_def extras_entries_def)
qed

lemma upt_1_11: "[1..<11] = [1, 2, 3, 4, 5, 6, 7, 8, 9, 10 :: nat]"
  by code_simp

lemma slot_keys: "map (\<lambda>i. ''extra'' @ decimal i) [1..<11] =
  [''extra1'', ''extra2'', ''extra3'', ''extra4'', ''extra5'', ''extra6'', ''extra7'',
   ''extra8'', ''extra9'', ''extra10'']"
  unfolding upt_1_11 by (simp add: decimal_digit decimal_10 digit_char_def)

lemma extras_entries_unfold:
  "extras_entries ex =
     slot_entry ex 1 @ slot_entry ex 2 @ slot_entry ex 3 @ slot_entry ex 4 @ slot_entry ex 5 @
     slot_entry ex 6 @ slot_entry ex 7 @ slot_entry ex 8 @ slot_entry ex 9 @ slot_entry ex 10"
  unfolding extras_entries_def upt_1_11 by simp

lemma slot_entry_simps:
  "slot_entry ex 1 = (case extra1 ex of Str s \<Rightarrow> [(''extra1'', JString s)] | _ \<Rightarrow> [])"
  "slot_entry ex (Suc 0) = (case extra1 ex of Str s \<Rightarrow> [(''extra1'', JString s)] | _ \<Rightarrow> [])"
  "slot_entry ex 2 = (case extra2 ex of Str s \<Rightarrow> [(''extra2'', JString s)] | _ \<Rightarrow> [])"
  "slot_entry ex 3 = (case extra3 ex of Str s \<Rightarrow> [(''extra3'', JString s)] | _ \<Rightarrow> [])"
  "slot_entry ex 4 = (case extra4 ex of Str s \<Rightarrow> [(''extra4'', JString s)] | _ \<Rightarrow> [])"
  "slot_entry ex 5 = (case extra5 ex of Str s \<Rightarrow> [(''extra5'', JString s)] | _ \<Rightarrow> [])"
  "slot_entry ex 6 = (case extra6 ex of Str s \<Rightarrow> [(''extra6'', JString s)] | _ \<Rightarrow> [])"
  "slot_entry ex 7 = (case extra7 ex of Str s \<Rightarrow> [(''extra7'', JString s)] | _ \<Rightarrow> [])"
  "slot_entry ex 8 = (case extra8 ex of Str s \<Rightarrow> [(''extra8'', JString s)] | _ \<Rightarrow> [])"
  "slot_entry ex 9 = (case extra9 ex of Str s \<Rightarrow> [(''extra9'', JString s)] | _ \<Rightarrow> [])"
  "slot_entry ex 10 = (case extra10 ex of Str s \<Rightarrow> [(''extra10'', JString s)] | _ \<Rightarrow> [])"
  by (simp_all add: slot_entry_def extras_get_def decimal_digit decimal_10 digit_char_def
      split: jsstr.splits)

lemma extras_entries_keys:
  "k \<in> fst ` set (extras_entries ex :: (string \<times> 'n json) list) \<Longrightarrow> take 5 k = ''extra''"
  using slot_entry_keys [where ?'n = 'n] by (fastforce simp add: extras_entries_def)

lemma map_of_extras_entries_other:
  "take 5 k \<noteq> ''extra'' \<Longrightarrow> map_of (extras_entries ex :: (string \<times> 'n json) list) k = None"
  using extras_entries_keys [of k ex, where ?'n = 'n] by (auto simp add: map_of_eq_None_iff)

lemma property_literal:
  assumes "take 5 k \<noteq> ''extra''"
  shows "property (mapPaymentDetailsToEpaycoRequest numStr details t) k =
           map_of (stringifiedPayload numStr details t) k"
  using assms
  by (auto simp add: mapPaymentDetailsToEpaycoRequest_eq map_add_def map_of_extras_entries_other
      split: option.splits)

lemma toLowerCase_String_bool:
  "toLowerCase (String_bool b) = (if b then ''true'' else ''false'')"
  by (simp add: toLowerCase_def String_bool_def lower_char_def)

lemma string_leaves_spread: "list_all string_leaves (map snd (spread_defined k str v))"
  by (simp add: spread_defined_def split: option.splits)

lemma string_leaves_receiver: "string_leaves (receiver_payload numStr r)"
  by (simp add: receiver_payload_def string_leaves_spread)

lemma string_leaves_strings: "list_all string_leaves (map JString ms)"
  by (induction ms) simp_all

lemma string_leaves_receivers: "list_all string_leaves (map (receiver_payload numStr) rs)"
  by (induction rs) (simp_all add: string_leaves_receiver)

lemma string_leaves_literal:
  "list_all string_leaves (map snd (stringifiedPayload numStr details t))"
  by (simp add: stringifiedPayload_def string_leaves_spread string_leaves_strings
      string_leaves_receivers split: option.splits)

lemma string_leaves_slot: "list_all string_leaves (map snd (slot_entry ex i))"
  by (simp add: slot_entry_def split: jsstr.splits)

lemma string_leaves_slots: "list_all string_leaves (map snd (concat (map (slot_entry ex) js)))"
  by (induction js) (simp_all add: string_leaves_slot)

lemma string_leaves_extras: "list_all string_leaves (map snd (extras_entries ex))"
  by (simp add: extras_entries_def string_leaves_slots)

text \<open>
  C5. Whatever the payment details and the test-mode flag, every leaf of the payload
  is a string, at any depth of its objects and arrays: no number, boolean or null is
  left. The flag itself is sent as the string \<open>true\<close> or \<open>false\<close>, in lower case.
\<close>

theorem payload_leaves_are_strings:
  "string_leaves (mapPaymentDetailsToEpaycoRequest numStr details t) \<and>
   property (mapPaymentDetailsToEpaycoRequest numStr details t) ''test'' =
     Some (JString (if t then ''true'' else ''false''))"
proof
  show "string_leaves (mapPaymentDetailsToEpaycoRequest numStr details t)"
    by (simp add: mapPaymentDetailsToEpaycoRequest_eq string_leaves_literal
        string_leaves_extras split: option.splits)
  show "property (mapPaymentDetailsToEpaycoRequest numStr details t) ''test'' =
     Some (JString (if t then ''true'' else ''false''))"
    by (simp add: property_literal stringifiedPayload_def toLowerCase_String_bool)
qed

lemma literal_head:
  "stringifiedPayload numStr details t =
     (''test'', JString (toLowerCase (String_bool t))) #
     (''ip'', JString (ip details)) #
     (''name'', JString (name details)) #
     (''description'', JString (description details)) #
     (''currency'', JString (toUpperCase (currency details))) #
     (''amount'', JString (numStr (amount details))) #
     (''country'', JString (toUpperCase (country details))) #
     (''lang'', JString (toUpperCase (lang details))) #
     (''response'', JString (responseUrl details)) #
     (''confirmation'', JString (confirmationUrl details)) #
     (''checkout_version'', JString ''2'') #
     (''billing'', JObject
         ([(''email'', JString (email (billing details))),
           (''name'', JString (EpaycoBillingDetails.name (billing details))),
           (''address'', JString (address (billing details))),
           (''typeDoc'', JString (typeDoc (billing details))),
           (''numberDoc'', JString (numberDoc (billing details))),
           (''mobilePhone'', JString (mobilePhone (billing details)))]
          @ spread_defined ''callingCode'' id (callingCode (billing details)))) #
     (''nameBilling'', JString (EpaycoBillingDetails.name (billing details))) #
     (''emailBilling'', JString (email (billing details))) #
     (''addressBilling'', JString (address (billing details))) #
     (''typeDocBilling'', JString (typeDoc (billing details))) #
     (''numberDocBilling'', JString (numberDoc (billing details))) #
     (''mobilephoneBilling'', JString (mobilePhone (billing details))) #
     drop 18 (stringifiedPayload numStr details t)"
  by (simp add: stringifiedPayload_def)

lemma property_root_billing:
  "property (mapPaymentDetailsToEpaycoRequest numStr details t) ''billing'' =
     Some (JObject
       ([(''email'', JString (email (billing details))),
         (''name'', JString (EpaycoBillingDetails.name (billing details))),
         (''address'', JString (address (billing details))),
         (''typeDoc'', JString (typeDoc (billing details))),
         (''numberDoc'', JString (numberDoc (billing details))),
         (''mobilePhone'', JString (mobilePhone (billing details)))]
        @ spread_defined ''callingCode'' id (callingCode (billing details))))"
  "property (mapPaymentDetailsToEpaycoRequest numStr details t) ''nameBilling''
     = Some (JString (EpaycoBillingDetails.name (billing details)))"
  "property (mapPaymentDetailsToEpaycoRequest numStr details t) ''emailBilling''
     = Some (JString (email (billing details)))"
  "property (mapPaymentDetailsToEpaycoRequest numStr details t) ''addressBilling''
     = Some (JString (address (billing details)))"
  "property (mapPaymentDetailsToEpaycoRequest numStr details t) ''typeDocBilling''
     = Some (JString (typeDoc (billing details)))"
  "property (mapPaymentDetailsToEpaycoRequest numStr details t) ''numberDocBilling''
     = Some (JString (numberDoc (billing details)))"
  "property (mapPaymentDetailsToEpaycoRequest numStr details t) ''mobilephoneBilling''
     = Some (JString (mobilePhone (billing details)))"
  by (simp_all add: property_literal) (subst literal_head, simp)+

text \<open>
  C6. Whatever the billing details, the payload has the six root-level fields
  \<open>nameBilling\<close>, \<open>emailBilling\<close>, \<open>addressBilling\<close>, \<open>typeDocBilling\<close>,
  \<open>numberDocBilling\<close> and \<open>mobilephoneBilling\<close>, and each equals the field
  \<open>name\<close>, \<open>email\<close>, \<open>address\<close>, \<open>typeDoc\<close>, \<open>numberDoc\<close>,
  \<open>mobilePhone\<close> of the object under \<open>billing\<close> in the same payload: both are the
  billing detail as a string.
\<close>

theorem root_billing_fields_equal_nested:
  "property (mapPaymentDetailsToEpaycoRequest numStr details t) ''nameBilling''
     = property_in (mapPaymentDetailsToEpaycoRequest numStr details t) ''billing'' ''name'' \<and>
   property (mapPaymentDetailsToEpaycoRequest numStr details t) ''nameBilling''
     = Some (JString (EpaycoBillingDetails.name (billing details))) \<and>
   property (mapPaymentDetailsToEpaycoRequest numStr details t) ''emailBilling''
     = property_in (mapPaymentDetailsToEpaycoRequest numStr details t) ''billing'' ''email'' \<and>
   property (mapPaymentDetailsToEpaycoRequest numStr details t) ''emailBilling''
     = Some (JString (email (billing details))) \<and>
   property (mapPaymentDetailsToEpaycoRequest numStr details t) ''addressBilling''
     = property_in (mapPaymentDetailsToEpaycoRequest numStr details t) ''billing'' ''address'' \<and>
   property (mapPaymentDetailsToEpaycoRequest numStr details t) ''addressBilling''
     = Some (JString (address (billing details))) \<and>
   property (mapPaymentDetailsToEpaycoRequest numStr details t) ''typeDocBilling''
     = property_in (mapPaymentDetailsToEpaycoRequest numStr details t) ''billing'' ''typeDoc'' \<and>
   property (mapPaymentDetailsToEpaycoRequest numStr details t) ''typeDocBilling''
     = Some (JString (typeDoc (billing details))) \<and>
   property (mapPaymentDetailsToEpaycoRequest numStr details t) ''numberDocBilling''
     = property_in (mapPaymentDetailsToEpaycoRequest numStr details t) ''billing'' ''numberDoc'' \<and>
   property (mapPaymentDetailsToEpaycoRequest numStr details t) ''numberDocBilling''
     = Some (JString (numberDoc (billing details))) \<and>
   property (mapPaymentDetailsToEpaycoRequest numStr details t) ''mobilephoneBilling''
     = property_in (mapPaymentDetailsToEpaycoRequest numStr details t) ''billing'' ''mobilePhone'' \<and>
   property (mapPaymentDetailsToEpaycoRequest numStr details t) ''mobilephoneBilling''
     = Some (JString (mobilePhone (billing details)))"
  unfolding property_in_def property_root_billing by simp

lemma map_of_slot_entry:
  "map_of (slot_entry ex i) k =
     (if k = ''extra'' @ decimal i
      then (case extras_get ex k of Str s \<Rightarrow> Some (JString s) | _ \<Rightarrow> None)
      else None)"
  by (auto simp add: slot_entry_def split: jsstr.splits)

lemma map_of_slots:
  assumes "i \<le> 10" and "\<forall>j \<in> set js. j \<le> 10"
  shows "map_of (concat (map (slot_entry ex) js)) (''extra'' @ decimal i) =
           (if i \<in> set js
            then (case extras_get ex (''extra'' @ decimal i) of
                    Str s \<Rightarrow> Some (JString s) | _ \<Rightarrow> None)
            else None)"
  using assms(2)
proof (induction js)
  case Nil
  then show ?case by simp
next
  case (Cons j js)
  have "decimal i = decimal j \<longleftrightarrow> i = j"
    using decimal_inj_upto_10 [of i j] assms(1) Cons.prems by auto
  then show ?case
    using Cons by (auto simp add: map_add_def map_of_slot_entry split: option.splits jsstr.splits)
qed

lemma property_slot:
  assumes "extras details = Some ex" and "1 \<le> i" and "i \<le> 10"
  shows "property (mapPaymentDetailsToEpaycoRequest numStr details t) (''extra'' @ decimal i) =
           (case extras_get ex (''extra'' @ decimal i) of
              Str s \<Rightarrow> Some (JString s) | _ \<Rightarrow> None)"
proof -
  have "map_of (stringifiedPayload numStr details t) (''extra'' @ decimal i) = None"
    using stringifiedPayload_keys [of "''extra'' @ decimal i" numStr details t]
    by (auto simp add: map_of_eq_None_iff)
  moreover have "map_of (extras_entries ex) (''extra'' @ decimal i) =
           (case extras_get ex (''extra'' @ decimal i) of
              Str s \<Rightarrow> Some (JString s) | _ \<Rightarrow> None)"
    unfolding extras_entries_def using assms(2,3) by (subst map_of_slots) auto
  ultimately show ?thesis
    using assms(1)
    by (simp add: mapPaymentDetailsToEpaycoRequest_eq map_add_def split: option.splits)
qed

text \<open>
  C7. With an extras object, the payload is the object literal followed by what the
  slots \<open>extra1\<close> to \<open>extra10\<close> contribute, in ascending order of the slot
  number, these ten slots and no other: a slot that holds a string contributes that
  string under the slot's own key, a slot that is \<open>undefined\<close> or \<open>null\<close>
  contributes nothing, and the literal has none of the ten keys. With \<open>extra5\<close>
  alone, the payload ends with \<open>extra5\<close> and has no key for another slot.
\<close>

theorem extras_copied_in_slot_order:
  assumes "extras details = Some ex"
  shows "mapPaymentDetailsToEpaycoRequest numStr details t =
           JObject (stringifiedPayload numStr details t @ concat (map (slot_entry ex) [1..<11])) \<and>
         map (\<lambda>i. ''extra'' @ decimal i) [1..<11] =
           [''extra1'', ''extra2'', ''extra3'', ''extra4'', ''extra5'', ''extra6'', ''extra7'',
            ''extra8'', ''extra9'', ''extra10''] \<and>
         (\<forall>i \<in> {1..10}.
            ''extra'' @ decimal i \<notin> fst ` set (stringifiedPayload numStr details t) \<and>
            property (mapPaymentDetailsToEpaycoRequest numStr details t) (''extra'' @ decimal i) =
              (case extras_get ex (''extra'' @ decimal i) of
                 Str s \<Rightarrow> Some (JString s) | _ \<Rightarrow> None)) \<and>
         (ex = no_extras\<lparr>extra5 := Str v\<rparr> \<longrightarrow>
            mapPaymentDetailsToEpaycoRequest numStr details t =
              JObject (stringifiedPayload numStr details t @ [(''extra5'', JString v)]))"
proof (intro conjI ballI impI)
  show eq: "mapPaymentDetailsToEpaycoRequest numStr details t =
           JObject (stringifiedPayload numStr details t @ concat (map (slot_entry ex) [1..<11]))"
    using assms by (simp add: mapPaymentDetailsToEpaycoRequest_eq extras_entries_def)
  show "map (\<lambda>i. ''extra'' @ decimal i) [1..<11] =
           [''extra1'', ''extra2'', ''extra3'', ''extra4'', ''extra5'', ''extra6'', ''extra7'',
            ''extra8'', ''extra9'', ''extra10'']"
    by (rule slot_keys)
  show "''extra'' @ decimal i \<notin> fst ` set (stringifiedPayload numStr details t)" for i
    using stringifiedPayload_keys [of "''extra'' @ decimal i" numStr details t] by auto
  show "property (mapPaymentDetailsToEpaycoRequest numStr details t) (''extra'' @ decimal i) =
              (case extras_get ex (''extra'' @ decimal i) of
                 Str s \<Rightarrow> Some (JString s) | _ \<Rightarrow> None)" if "i \<in> {1..10}" for i
    using property_slot [OF assms, of i] that by simp
  show "mapPaymentDetailsToEpaycoRequest numStr details t =
              JObject (stringifiedPayload numStr details t @ [(''extra5'', JString v)])"
    if "ex = no_extras\<lparr>extra5 := Str v\<rparr>"
    using assms that
    by (simp add: mapPaymentDetailsToEpaycoRequest_eq extras_entries_unfold slot_entry_simps
        no_extras_def)
qed

lemma example_amount: "decimal 50000 = ''50000''"
  by (simp add: decimal.simps [of 50000] decimal.simps [of 5000] decimal.simps [of 500]
      decimal.simps [of 50] decimal.simps [of 5] digit_char_def)

lemma example_upper:
  "toUpperCase ''cop'' = ''COP''" "toUpperCase ''CO'' = ''CO''" "toUpperCase ''ES'' = ''ES''"
  by code_simp+

theorem extras_copied_in_slot_order_witness:
  "mapPaymentDetailsToEpaycoRequest decimal
     (example_details\<lparr>extras := Some (no_extras\<lparr>extra5 := Str ''order-17''\<rparr>)\<rparr>) True =
     JObject
       [(''test'', JString ''true''), (''ip'', JString ''190.0.0.1''),
        (''name'', JString ''Test Product''),
        (''description'', JString ''A product for testing''),
        (''currency'', JString ''COP''), (''amount'', JString ''50000''),
        (''country'', JString ''CO''), (''lang'', JString ''ES''),
        (''response'', JString ''https://myapp.com/checkout/response''),
        (''confirmation'', JString ''https://myapp.com/api/epayco-confirmation''),
        (''checkout_version'', JString ''2''),
        (''billing'',
         JObject
           [(''email'', JString ''john.doe@example.com''), (''name'', JString ''John Doe''),
            (''address'', JString ''123 Main St''), (''typeDoc'', JString ''CC''),
            (''numberDoc'', JString ''123456789''), (''mobilePhone'', JString ''3001234567'')]),
        (''nameBilling'', JString ''John Doe''),
        (''emailBilling'', JString ''john.doe@example.com''),
        (''addressBilling'', JString ''123 Main St''),
        (''typeDocBilling'', JString ''CC''),
        (''numberDocBilling'', JString ''123456789''),
        (''mobilephoneBilling'', JString ''3001234567''),
        (''extra5'', JString ''order-17'')]"
proof -
  let ?ex = "no_extras\<lparr>extra5 := Str ''order-17''\<rparr>"
  let ?d = "example_details\<lparr>extras := Some ?ex\<rparr>"
  have "extras ?d = Some ?ex" by simp
  from extras_copied_in_slot_order [OF this, of decimal True "''order-17''"]
  have "mapPaymentDetailsToEpaycoRequest decimal ?d True =
          JObject (stringifiedPayload decimal ?d True @ [(''extra5'', JString ''order-17'')])"
    by blast
  then show ?thesis
    by (simp add: stringifiedPayload_def example_details_def example_billing_def
        spread_defined_def toLowerCase_String_bool example_upper example_amount)
qed

lemma map_of_spread_defined:
  "map_of (spread_defined k str v) k' =
     (if k' = k then map_option (\<lambda>x. JString (str x)) v else None)"
  by (simp add: spread_defined_def split: option.splits)

lemma map_of_append_first: "map_of xs k = Some v \<Longrightarrow> map_of (xs @ ys) k = Some v"
  by (simp add: map_add_def)

lemma map_of_append_second: "map_of xs k = None \<Longrightarrow> map_of (xs @ ys) k = map_of ys k"
  by (simp add: map_add_def)

lemma map_of_methods_other:
  "k \<noteq> ''methodsDisable'' \<Longrightarrow>
   map_of (case md of None \<Rightarrow> []
           | Some ms \<Rightarrow> if c ms then [(''methodsDisable'', f ms)] else []) k = None"
  by (simp split: option.splits)

lemma map_of_split_other:
  "k \<noteq> ''splitPayment'' \<Longrightarrow>
   map_of (case sp of None \<Rightarrow> [] | Some x \<Rightarrow> [(''splitPayment'', g x)]) k = None"
  by (simp split: option.splits)

lemma property_invoice:
  "property (mapPaymentDetailsToEpaycoRequest numStr details t) ''invoice'' =
     map_option JString (invoice details)"
  by (cases "invoice details")
     (simp_all add: property_literal stringifiedPayload_def map_add_def map_of_spread_defined
        map_of_methods_other map_of_split_other)

lemma property_taxBase:
  "property (mapPaymentDetailsToEpaycoRequest numStr details t) ''taxBase'' =
     map_option (\<lambda>n. JString (numStr n)) (taxBase details)"
  by (cases "taxBase details")
     (simp_all add: property_literal stringifiedPayload_def map_add_def map_of_spread_defined
        map_of_methods_other map_of_split_other)

lemma property_tax:
  "property (mapPaymentDetailsToEpaycoRequest numStr details t) ''tax'' =
     map_option (\<lambda>n. JString (numStr n)) (tax details)"
  by (cases "tax details")
     (simp_all add: property_literal stringifiedPayload_def map_add_def map_of_spread_defined
        map_of_methods_other map_of_split_other)

lemma property_taxIco:
  "property (mapPaymentDetailsToEpaycoRequest numStr details t) ''taxIco'' =
     map_option (\<lambda>n. JString (numStr n)) (taxIco details)"
  by (cases "taxIco details")
     (simp_all add: property_literal stringifiedPayload_def map_add_def map_of_spread_defined
        map_of_methods_other map_of_split_other)

lemma property_methodsDisable:
  "property (mapPaymentDetailsToEpaycoRequest numStr details t) ''methodsDisable'' =
     (case methodsDisable details of
        None \<Rightarrow> None
      | Some ms \<Rightarrow> if ms = [] then None else Some (JArray (map JString ms)))"
  by (cases "methodsDisable details"; cases "splitPayment details")
     (simp_all add: property_literal stringifiedPayload_def map_add_def map_of_spread_defined)


text \<open>
  C8, as amended. \<open>invoice\<close>, \<open>taxBase\<close>, \<open>tax\<close> and \<open>taxIco\<close> are in the
  payload exactly when they are present in the details, as strings, and left out
  otherwise. \<open>methodsDisable\<close> is in the payload exactly when it is present and
  not the empty list: the spread is guarded by \<open>length > 0\<close>.
\<close>

theorem optional_fields_present_iff:
  "property (mapPaymentDetailsToEpaycoRequest numStr details t) ''invoice'' =
     map_option JString (invoice details) \<and>
   property (mapPaymentDetailsToEpaycoRequest numStr details t) ''taxBase'' =
     map_option (\<lambda>n. JString (numStr n)) (taxBase details) \<and>
   property (mapPaymentDetailsToEpaycoRequest numStr details t) ''tax'' =
     map_option (\<lambda>n. JString (numStr n)) (tax details) \<and>
   property (mapPaymentDetailsToEpaycoRequest numStr details t) ''taxIco'' =
     map_option (\<lambda>n. JString (numStr n)) (taxIco details) \<and>
   property (mapPaymentDetailsToEpaycoRequest numStr details t) ''methodsDisable'' =
     (case methodsDisable details of
        None \<Rightarrow> None
      | Some ms \<Rightarrow> if ms = [] then None else Some (JArray (map JString ms))) \<and>
   ((property (mapPaymentDetailsToEpaycoRequest numStr details t) ''invoice'' \<noteq> None)
      = (invoice details \<noteq> None)) \<and>
   ((property (mapPaymentDetailsToEpaycoRequest numStr details t) ''taxBase'' \<noteq> None)
      = (taxBase details \<noteq> None)) \<and>
   ((property (mapPaymentDetailsToEpaycoRequest numStr details t) ''tax'' \<noteq> None)
      = (tax details \<noteq> None)) \<and>
   ((property (mapPaymentDetailsToEpaycoRequest numStr details t) ''taxIco'' \<noteq> None)
      = (taxIco details \<noteq> None)) \<and>
   ((property (mapPaymentDetailsToEpaycoRequest numStr details t) ''methodsDisable'' \<noteq> None)
      = (\<exists>ms. methodsDisable details = Some ms \<and> ms \<noteq> []))"
  unfolding property_invoice property_taxBase property_tax property_taxIco
    property_methodsDisable
  by (simp split: option.splits)

text \<open>
  C8 as stated fails for \<open>methodsDisable: []\<close>: the field is present in the details
  and absent from the payload.
\<close>

theorem empty_methodsDisable_counterexample:
  "\<not> ((property (mapPaymentDetailsToEpaycoRequest decimal
                 (example_details\<lparr>methodsDisable := Some []\<rparr>) True) ''methodsDisable'' \<noteq> None)
       = (methodsDisable (example_details\<lparr>methodsDisable := Some []\<rparr>) \<noteq> None))"
  unfolding property_methodsDisable by simp

section \<open>The authenticator\<close>

lemma login_errorMessage_first_nonempty:
  "login_errorMessage d =
     first_nonempty
       [error d, EpaycoLoginResponse.textResponse d, EpaycoLoginResponse.titleResponse d,
        message d]
       ''Invalid token or unknown error response during authentication.''"
  by (simp add: login_errorMessage_def js_or_def)

lemma authentication_kind:
  "error_kind_of (Error (''ePayco Authentication Failed: '' @ m)) = Some AuthenticationFailed"
  by (simp add: startsWith_def)

lemma session_kind:
  "error_kind_of (Error (''ePayco Session Creation Failed: '' @ m)) = Some SessionCreationFailed"
  by (simp add: startsWith_def)

lemma getEpaycoAuthToken_resolved:
  assumes "login_reply net (login_request pk sk url) = Resolved body"
  shows "fst (getEpaycoAuthToken net pk sk url) =
           (case body of
              Some d \<Rightarrow>
                if falsy (token d)
                then Inl (Error (''ePayco Authentication Failed: ePayco Authentication Failed: '' @
                                 login_errorMessage d))
                else Inr (js_String (token d))
            | None \<Rightarrow>
                Inl (Error (''ePayco Authentication Failed: ePayco Authentication Failed: '' @
                            login_errorMessage empty_login_response)))"
  using assms by (simp add: getEpaycoAuthToken_def Let_def split: option.splits)

lemma getEpaycoAuthToken_rejected:
  assumes "login_reply net (login_request pk sk url) = Rejected e"
  shows "fst (getEpaycoAuthToken net pk sk url) = Inl (login_catch e)"
  using assms by (simp add: getEpaycoAuthToken_def Let_def)

lemma login_catch_first_nonempty:
  "login_catch (AxiosError errorData axiosMessage) =
     Error (''ePayco Authentication Failed: '' @
            first_nonempty
              [chain errorData message, chain errorData error,
               chain errorData EpaycoLoginResponse.textResponse, Str axiosMessage]
              ''Network error or ePayco server issue during authentication.'')"
  by (simp add: js_or_def)

text \<open>
  C9, as amended. \<open>getEpaycoAuthToken\<close> returns a token exactly when the login
  call resolves with a body that has a non-empty \<open>token\<close>, and the token is what
  it returns. When the call resolves with a body whose token is missing or empty, it
  fails with an error of the kind \<open>AuthenticationFailed\<close>: the message is the
  prefix \<open>ePayco Authentication Failed:\<close>, put there by the \<open>throw\<close> and again
  by the \<open>catch\<close> block that receives it, followed by the first of \<open>error\<close>,
  \<open>textResponse\<close>, \<open>titleResponse\<close>, \<open>message\<close> that is a non-empty string,
  or by the generic message when there is none; so it is with no body and with the
  body \<open>{}\<close>. When the call is rejected with an Axios error, it fails with an
  error of the same kind whose message is the prefix followed by the first non-empty
  of \<open>message\<close>, \<open>error\<close>, \<open>textResponse\<close> of the error's body, then the
  Axios message, then a generic network message. Another rejection keeps its message
  after the prefix, or gives the unknown-error message. The function sends the one
  login request and has no other outcome than a token or such an error.
\<close>

theorem getEpaycoAuthToken_outcome:
  "(login_reply net (login_request pk sk url) = Resolved (Some d) \<and> token d = Str tok \<and> tok \<noteq> []
      \<longrightarrow> fst (getEpaycoAuthToken net pk sk url) = Inr tok) \<and>
   ((\<exists>tok'. fst (getEpaycoAuthToken net pk sk url) = Inr tok')
      \<longrightarrow> (\<exists>d' tok'. login_reply net (login_request pk sk url) = Resolved (Some d') \<and>
                     token d' = Str tok' \<and> tok' \<noteq> [])) \<and>
   (login_reply net (login_request pk sk url) = Resolved (Some d) \<and> falsy (token d)
      \<longrightarrow> fst (getEpaycoAuthToken net pk sk url) =
            Inl (Error (''ePayco Authentication Failed: ePayco Authentication Failed: '' @
                   first_nonempty
                     [error d, EpaycoLoginResponse.textResponse d,
                      EpaycoLoginResponse.titleResponse d, message d]
                     ''Invalid token or unknown error response during authentication.'')) \<and>
          map_sum error_kind_of id (fst (getEpaycoAuthToken net pk sk url)) =
            Inl (Some AuthenticationFailed)) \<and>
   (login_reply net (login_request pk sk url) = Resolved None \<or>
    login_reply net (login_request pk sk url) = Resolved (Some empty_login_response)
      \<longrightarrow> fst (getEpaycoAuthToken net pk sk url) =
            Inl (Error (''ePayco Authentication Failed: ePayco Authentication Failed: '' @
                        ''Invalid token or unknown error response during authentication.''))) \<and>
   (login_reply net (login_request pk sk url) = Rejected (AxiosError errorData axiosMessage)
      \<longrightarrow> fst (getEpaycoAuthToken net pk sk url) =
            Inl (Error (''ePayco Authentication Failed: '' @
                   first_nonempty
                     [chain errorData message, chain errorData error,
                      chain errorData EpaycoLoginResponse.textResponse, Str axiosMessage]
                     ''Network error or ePayco server issue during authentication.'')) \<and>
          map_sum error_kind_of id (fst (getEpaycoAuthToken net pk sk url)) =
            Inl (Some AuthenticationFailed)) \<and>
   (login_reply net (login_request pk sk url) = Rejected (PlainError m)
      \<longrightarrow> fst (getEpaycoAuthToken net pk sk url) =
            Inl (Error (''ePayco Authentication Failed: '' @ m))) \<and>
   (login_reply net (login_request pk sk url) = Rejected NonError
      \<longrightarrow> fst (getEpaycoAuthToken net pk sk url) =
            Inl (Error ''An unknown error occurred during ePayco authentication.'')) \<and>
   snd (getEpaycoAuthToken net pk sk url) = [login_request pk sk url]"
proof (intro conjI impI)
  assume "login_reply net (login_request pk sk url) = Resolved (Some d) \<and> token d = Str tok \<and> tok \<noteq> []"
  then show "fst (getEpaycoAuthToken net pk sk url) = Inr tok"
    by (simp add: getEpaycoAuthToken_resolved)
next
  assume "\<exists>tok'. fst (getEpaycoAuthToken net pk sk url) = Inr tok'"
  then obtain tok' where ok: "fst (getEpaycoAuthToken net pk sk url) = Inr tok'" ..
  show "\<exists>d' tok'. login_reply net (login_request pk sk url) = Resolved (Some d') \<and>
                     token d' = Str tok' \<and> tok' \<noteq> []"
  proof (cases "login_reply net (login_request pk sk url)")
    case (Rejected e)
    then show ?thesis using ok by (simp add: getEpaycoAuthToken_rejected)
  next
    case (Resolved body)
    then show ?thesis
      using ok
      by (cases body; cases "token (the body)")
         (auto simp add: getEpaycoAuthToken_resolved split: if_splits)
  qed
next
  assume a: "login_reply net (login_request pk sk url) = Resolved (Some d) \<and> falsy (token d)"
  then show "fst (getEpaycoAuthToken net pk sk url) =
            Inl (Error (''ePayco Authentication Failed: ePayco Authentication Failed: '' @
                   first_nonempty
                     [error d, EpaycoLoginResponse.textResponse d,
                      EpaycoLoginResponse.titleResponse d, message d]
                     ''Invalid token or unknown error response during authentication.''))"
    by (simp add: getEpaycoAuthToken_resolved login_errorMessage_first_nonempty)
  from a show "map_sum error_kind_of id (fst (getEpaycoAuthToken net pk sk url)) =
            Inl (Some AuthenticationFailed)"
    using authentication_kind by (simp add: getEpaycoAuthToken_resolved)
next
  assume "login_reply net (login_request pk sk url) = Resolved None \<or>
    login_reply net (login_request pk sk url) = Resolved (Some empty_login_response)"
  then show "fst (getEpaycoAuthToken net pk sk url) =
            Inl (Error (''ePayco Authentication Failed: ePayco Authentication Failed: '' @
                        ''Invalid token or unknown error response during authentication.''))"
    by (auto simp add: getEpaycoAuthToken_resolved login_errorMessage_first_nonempty
        empty_login_response_def)
next
  assume r: "login_reply net (login_request pk sk url) = Rejected (AxiosError errorData axiosMessage)"
  then show "fst (getEpaycoAuthToken net pk sk url) =
            Inl (Error (''ePayco Authentication Failed: '' @
                   first_nonempty
                     [chain errorData message, chain errorData error,
                      chain errorData EpaycoLoginResponse.textResponse, Str axiosMessage]
                     ''Network error or ePayco server issue during authentication.''))"
    by (simp only: getEpaycoAuthToken_rejected login_catch_first_nonempty)
  then show "map_sum error_kind_of id (fst (getEpaycoAuthToken net pk sk url)) =
            Inl (Some AuthenticationFailed)"
    using authentication_kind by simp
next
  assume "login_reply net (login_request pk sk url) = Rejected (PlainError m)"
  then show "fst (getEpaycoAuthToken net pk sk url) =
            Inl (Error (''ePayco Authentication Failed: '' @ m))"
    by (simp add: getEpaycoAuthToken_rejected)
next
  assume "login_reply net (login_request pk sk url) = Rejected NonError"
  then show "fst (getEpaycoAuthToken net pk sk url) =
            Inl (Error ''An unknown error occurred during ePayco authentication.'')"
    by (simp add: getEpaycoAuthToken_rejected)
next
  show "snd (getEpaycoAuthToken net pk sk url) = [login_request pk sk url]"
    by (simp add: getEpaycoAuthToken_def Let_def)
qed

theorem getEpaycoAuthToken_outcome_witness:
  "fst (getEpaycoAuthToken
          (login_answers (Some (empty_login_response\<lparr>token := Str ''jwt''\<rparr>)) :: nat network)
          ''pub'' ''priv'' ''https://apify.epayco.co'') = Inr ''jwt'' \<and>
   fst (getEpaycoAuthToken
          (login_answers (Some (empty_login_response
             \<lparr>error := Str [], EpaycoLoginResponse.titleResponse := Str ''Unauthorized'',
              message := Str ''try again''\<rparr>)) :: nat network)
          ''pub'' ''priv'' ''https://apify.epayco.co'') =
     Inl (Error ''ePayco Authentication Failed: ePayco Authentication Failed: Unauthorized'') \<and>
   fst (getEpaycoAuthToken (login_answers (Some empty_login_response) :: nat network)
          ''pub'' ''priv'' ''https://apify.epayco.co'') =
     Inl (Error (''ePayco Authentication Failed: ePayco Authentication Failed: '' @
                 ''Invalid token or unknown error response during authentication.'')) \<and>
   fst (getEpaycoAuthToken
          (login_rejects (AxiosError
             (Some (empty_login_response
                \<lparr>EpaycoLoginResponse.titleResponse := Str ''Unauthorized''\<rparr>))
             ''Request failed with status code 401'') :: nat network)
          ''pub'' ''priv'' ''https://apify.epayco.co'') =
     Inl (Error ''ePayco Authentication Failed: Request failed with status code 401'') \<and>
   fst (getEpaycoAuthToken (login_rejects (PlainError ''socket hang up'') :: nat network)
          ''pub'' ''priv'' ''https://apify.epayco.co'') =
     Inl (Error ''ePayco Authentication Failed: socket hang up'') \<and>
   fst (getEpaycoAuthToken (login_rejects NonError :: nat network)
          ''pub'' ''priv'' ''https://apify.epayco.co'') =
     Inl (Error ''An unknown error occurred during ePayco authentication.'')"
  using
    getEpaycoAuthToken_outcome
      [where net = "login_answers (Some (empty_login_response\<lparr>token := Str ''jwt''\<rparr>)) :: nat network"
         and pk = "''pub''" and sk = "''priv''" and url = "''https://apify.epayco.co''"
         and d = "empty_login_response\<lparr>token := Str ''jwt''\<rparr>" and tok = "''jwt''"]
    getEpaycoAuthToken_outcome
      [where net = "login_answers (Some (empty_login_response
             \<lparr>error := Str [], EpaycoLoginResponse.titleResponse := Str ''Unauthorized'',
              message := Str ''try again''\<rparr>)) :: nat network"
         and pk = "''pub''" and sk = "''priv''" and url = "''https://apify.epayco.co''"
         and d = "empty_login_response
             \<lparr>error := Str [], EpaycoLoginResponse.titleResponse := Str ''Unauthorized'',
              message := Str ''try again''\<rparr>"]
    getEpaycoAuthToken_outcome
      [where net = "login_answers (Some empty_login_response) :: nat network"
         and pk = "''pub''" and sk = "''priv''" and url = "''https://apify.epayco.co''"
         and d = empty_login_response]
    getEpaycoAuthToken_outcome
      [where net = "login_rejects (AxiosError
             (Some (empty_login_response
                \<lparr>EpaycoLoginResponse.titleResponse := Str ''Unauthorized''\<rparr>))
             ''Request failed with status code 401'') :: nat network"
         and pk = "''pub''" and sk = "''priv''" and url = "''https://apify.epayco.co''"
         and errorData = "Some (empty_login_response
                \<lparr>EpaycoLoginResponse.titleResponse := Str ''Unauthorized''\<rparr>)"
         and axiosMessage = "''Request failed with status code 401''"]
    getEpaycoAuthToken_outcome
      [where net = "login_rejects (PlainError ''socket hang up'') :: nat network"
         and pk = "''pub''" and sk = "''priv''" and url = "''https://apify.epayco.co''"
         and m = "''socket hang up''"]
    getEpaycoAuthToken_outcome
      [where net = "login_rejects NonError :: nat network"
         and pk = "''pub''" and sk = "''priv''" and url = "''https://apify.epayco.co''"]
  by (simp add: login_answers_def login_rejects_def empty_login_response_def chain_def)

text \<open>
  C9 as stated fails when the login call is rejected with a body: the body
  \<open>{ error: "Invalid client", message: "bad creds" }\<close> on a 401 answer gives the
  message of \<open>message\<close>, not of \<open>error\<close>, and the body \<open>{}\<close> gives the Axios
  message, not the generic fallback.
\<close>

theorem rejected_login_message_counterexample:
  "fst (getEpaycoAuthToken
          (login_rejects (AxiosError
             (Some (empty_login_response
                \<lparr>error := Str ''Invalid client'', message := Str ''bad creds''\<rparr>))
             ''Request failed with status code 401'') :: nat network)
          ''pub'' ''priv'' ''https://apify.epayco.co'') =
     Inl (Error ''ePayco Authentication Failed: bad creds'') \<and>
   first_nonempty
     [error (empty_login_response\<lparr>error := Str ''Invalid client'', message := Str ''bad creds''\<rparr>),
      EpaycoLoginResponse.textResponse
        (empty_login_response\<lparr>error := Str ''Invalid client'', message := Str ''bad creds''\<rparr>),
      EpaycoLoginResponse.titleResponse
        (empty_login_response\<lparr>error := Str ''Invalid client'', message := Str ''bad creds''\<rparr>),
      message (empty_login_response\<lparr>error := Str ''Invalid client'', message := Str ''bad creds''\<rparr>)]
     ''Invalid token or unknown error response during authentication.'' = ''Invalid client'' \<and>
   fst (getEpaycoAuthToken
          (login_rejects (AxiosError
             (Some (empty_login_response
                \<lparr>error := Str ''Invalid client'', message := Str ''bad creds''\<rparr>))
             ''Request failed with status code 401'') :: nat network)
          ''pub'' ''priv'' ''https://apify.epayco.co'') \<noteq>
     Inl (Error ''ePayco Authentication Failed: Invalid client'') \<and>
   fst (getEpaycoAuthToken
          (login_rejects (AxiosError (Some empty_login_response)
             ''Request failed with status code 401'') :: nat network)
          ''pub'' ''priv'' ''https://apify.epayco.co'') =
     Inl (Error ''ePayco Authentication Failed: Request failed with status code 401'')"
  by (simp add: getEpaycoAuthToken_def login_rejects_def empty_login_response_def chain_def
      js_or_def Let_def)

section \<open>The session orchestrator\<close>

lemma configuration_kind:
  "error_kind_of (Error (''ePayco SDK:'' @ m)) = Some ConfigurationError"
  by (simp add: startsWith_def)

text \<open>
  C10. With an empty public key, an empty private key or no payment details,
  \<open>createEpaycoSession\<close> fails with an error of the kind \<open>ConfigurationError\<close>
  (a message that starts with \<open>ePayco SDK:\<close>) and has sent no request: neither the
  login nor the session request.
\<close>

theorem configuration_checked_before_network:
  assumes "publicKey config = [] \<or> privateKey config = [] \<or> paymentDetails config = None"
  shows "snd (createEpaycoSession net numStr config) = [] \<and>
         fst (createEpaycoSession net numStr config) =
           Inl (Error (if publicKey config = [] \<or> privateKey config = []
                       then ''ePayco SDK: Public Key and Private Key are required '' @
                            ''in CreateEpaycoSessionConfig.''
                       else ''ePayco SDK: Payment details (paymentDetails) are required '' @
                            ''in CreateEpaycoSessionConfig.'')) \<and>
         map_sum error_kind_of id (fst (createEpaycoSession net numStr config)) =
           Inl (Some ConfigurationError)"
  using assms configuration_kind
  by (auto simp add: createEpaycoSession_def startsWith_def)

theorem configuration_checked_before_network_witness:
  "createEpaycoSession (gateway success_without_id) decimal
     (example_config\<lparr>privateKey := []\<rparr>) =
     (Inl (Error (''ePayco SDK: Public Key and Private Key are required '' @
                  ''in CreateEpaycoSessionConfig.'')), []) \<and>
   createEpaycoSession (gateway success_without_id) decimal
     (example_config\<lparr>paymentDetails := None\<rparr>) =
     (Inl (Error (''ePayco SDK: Payment details (paymentDetails) are required '' @
                  ''in CreateEpaycoSessionConfig.'')), [])"
  using
    configuration_checked_before_network
      [of "example_config\<lparr>privateKey := []\<rparr>" "gateway success_without_id" decimal]
    configuration_checked_before_network
      [of "example_config\<lparr>paymentDetails := None\<rparr>" "gateway success_without_id" decimal]
  by (simp add: example_config_def prod_eq_iff)

lemma createEpaycoSession_resolved:
  assumes "publicKey config \<noteq> []" and "privateKey config \<noteq> []"
    and "paymentDetails config = Some details"
    and "getEpaycoAuthToken net (publicKey config) (privateKey config)
           (case epaycoApiBaseUrl config of None \<Rightarrow> DEFAULT_EPAYCO_API_BASE_URL | Some u \<Rightarrow> u)
         = (Inr authToken, sent)"
    and "session_reply net
           (session_request
              (case epaycoApiBaseUrl config of None \<Rightarrow> DEFAULT_EPAYCO_API_BASE_URL | Some u \<Rightarrow> u)
              authToken
              (mapPaymentDetailsToEpaycoRequest numStr details (isTestMode config)))
         = Resolved response"
  shows "fst (createEpaycoSession net numStr config) =
           (if success response \<and> \<not> falsy (chain (data response) sessionId)
            then Inr (chain (data response) sessionId)
            else Inl (Error (''ePayco Session Creation Failed: '' @
                             session_errorMessage numStr response)))"
  using assms
  by (simp add: createEpaycoSession_def Let_def startsWith_def)

lemma createEpaycoSession_failure_kind:
  assumes "publicKey config \<noteq> []" and "privateKey config \<noteq> []"
    and "paymentDetails config = Some details"
    and "getEpaycoAuthToken net (publicKey config) (privateKey config)
           (case epaycoApiBaseUrl config of None \<Rightarrow> DEFAULT_EPAYCO_API_BASE_URL | Some u \<Rightarrow> u)
         = (Inr authToken, sent)"
    and "session_reply net
           (session_request
              (case epaycoApiBaseUrl config of None \<Rightarrow> DEFAULT_EPAYCO_API_BASE_URL | Some u \<Rightarrow> u)
              authToken
              (mapPaymentDetailsToEpaycoRequest numStr details (isTestMode config)))
         = Resolved response"
    and "\<not> (success response \<and> \<not> falsy (chain (data response) sessionId))"
  shows "map_sum error_kind_of id (fst (createEpaycoSession net numStr config)) =
           Inl (Some SessionCreationFailed)"
  using createEpaycoSession_resolved [OF assms(1-5)] assms(6) session_kind by auto

lemma createEpaycoSession_session_id:
  assumes "fst (createEpaycoSession net numStr config) = Inr v"
  shows "\<exists>s. v = Str s \<and> s \<noteq> []"
proof -
  have "\<not> falsy v"
    using assms
    by (auto simp add: createEpaycoSession_def Let_def split: if_splits option.splits
        prod.splits sum.splits js_error.splits outcome.splits)
  then show ?thesis by (cases v) auto
qed

text \<open>
  C4. After a successful login, the answer \<open>{ success: true, data: {} }\<close> to the
  session request makes \<open>createEpaycoSession\<close> of \<open>src/server/index.ts\<close>
  resolve with \<open>undefined\<close> as the session id, where the other copy of the
  function fails with a \<open>SessionCreationFailed\<close> error (by
  \<open>createEpaycoSession_resolved\<close> it returns a session id exactly on
  \<open>success === true\<close> with a non-empty \<open>data.sessionId\<close>).
\<close>

theorem server_index_resolves_with_undefined:
  "fst (createEpaycoSession_server_index (gateway success_without_id) decimal example_config)
     = Inr Undefined \<and>
   fst (createEpaycoSession (gateway success_without_id) decimal example_config)
     = Inl (Error ''ePayco Session Creation Failed: ePayco session creation failed.'')"
  by (simp add: createEpaycoSession_server_index_def createEpaycoSession_def
      getEpaycoAuthToken_server_index_def getEpaycoAuthToken_def gateway_def
      success_without_id_def example_config_def empty_login_response_def chain_def
      session_errorMessage_def field_errors_def startsWith_def Let_def)

end
